theory Spec2Isabelle
  imports
    Complex_Main
    "HOL-Library.Char_ord"
    "HOL-Library.List_Lexorder"
    "HOL-Library.Product_Lexorder"
    "HOL-Library.Sublist"
begin

section \<open>Numbers and series\<close>

text \<open>
  The program computes on pandas Series of float64. A float is modelled as not-a-number,
  one of the two infinities, or a finite value carried as an exact real: rounding is not
  modelled, and zero has no sign (the sign of a zero only decides the sign of an infinite
  quotient). Comparisons with \<open>NaN\<close> are false, as in IEEE 754; arithmetic on a Series
  never raises, a division by zero gives an infinity or \<open>NaN\<close>. Python's \<open>None\<close> for a
  missing float is \<open>None\<close> of \<open>fval option\<close>.
\<close>

datatype fval = NaN | PInf | NInf | Fin real

datatype error = KeyError | IndexError | ValueError

fun is_fin :: "fval \<Rightarrow> bool" where
  "is_fin (Fin r) = True"
| "is_fin x = False"

fun fin_val :: "fval \<Rightarrow> real" where
  "fin_val (Fin r) = r"
| "fin_val x = 0"

definition isna :: "fval \<Rightarrow> bool" where
  "isna x = (x = NaN)"

fun fneg :: "fval \<Rightarrow> fval" where
  "fneg NaN = NaN"
| "fneg PInf = NInf"
| "fneg NInf = PInf"
| "fneg (Fin a) = Fin (- a)"

fun fadd :: "fval \<Rightarrow> fval \<Rightarrow> fval" where
  "fadd (Fin a) (Fin b) = Fin (a + b)"
| "fadd NaN y = NaN"
| "fadd x NaN = NaN"
| "fadd PInf NInf = NaN"
| "fadd NInf PInf = NaN"
| "fadd PInf y = PInf"
| "fadd x PInf = PInf"
| "fadd NInf y = NInf"
| "fadd x NInf = NInf"

definition fsub :: "fval \<Rightarrow> fval \<Rightarrow> fval" where
  "fsub x y = fadd x (fneg y)"

fun fmul :: "fval \<Rightarrow> fval \<Rightarrow> fval" where
  "fmul (Fin a) (Fin b) = Fin (a * b)"
| "fmul NaN y = NaN"
| "fmul x NaN = NaN"
| "fmul (Fin a) PInf = (if a = 0 then NaN else if 0 < a then PInf else NInf)"
| "fmul (Fin a) NInf = (if a = 0 then NaN else if 0 < a then NInf else PInf)"
| "fmul PInf (Fin b) = (if b = 0 then NaN else if 0 < b then PInf else NInf)"
| "fmul NInf (Fin b) = (if b = 0 then NaN else if 0 < b then NInf else PInf)"
| "fmul PInf PInf = PInf"
| "fmul NInf NInf = PInf"
| "fmul PInf NInf = NInf"
| "fmul NInf PInf = NInf"

fun fdiv :: "fval \<Rightarrow> fval \<Rightarrow> fval" where
  "fdiv (Fin a) (Fin b) =
     (if b \<noteq> 0 then Fin (a / b) else if a = 0 then NaN else if 0 < a then PInf else NInf)"
| "fdiv NaN y = NaN"
| "fdiv x NaN = NaN"
| "fdiv (Fin a) y = Fin 0"
| "fdiv PInf (Fin b) = (if 0 \<le> b then PInf else NInf)"
| "fdiv NInf (Fin b) = (if 0 \<le> b then NInf else PInf)"
| "fdiv x y = NaN"

fun flt :: "fval \<Rightarrow> fval \<Rightarrow> bool" where
  "flt (Fin a) (Fin b) = (a < b)"
| "flt NInf (Fin b) = True"
| "flt NInf PInf = True"
| "flt (Fin a) PInf = True"
| "flt x y = False"

fun fle :: "fval \<Rightarrow> fval \<Rightarrow> bool" where
  "fle (Fin a) (Fin b) = (a \<le> b)"
| "fle NaN y = False"
| "fle x NaN = False"
| "fle NInf y = True"
| "fle x PInf = True"
| "fle x y = False"

definition fgt :: "fval \<Rightarrow> fval \<Rightarrow> bool" where
  "fgt x y = flt y x"

definition fge :: "fval \<Rightarrow> fval \<Rightarrow> bool" where
  "fge x y = fle y x"

text \<open>\<open>Series.diff()\<close>: the first entry has no predecessor.\<close>

definition diff :: "fval list \<Rightarrow> fval list" where
  "diff xs = (case xs of [] \<Rightarrow> [] | x # rest \<Rightarrow> NaN # map2 fsub rest xs)"

text \<open>\<open>Series.shift(k)\<close>: same length, the vacated entries are \<open>NaN\<close>.\<close>

definition shift :: "int \<Rightarrow> fval list \<Rightarrow> fval list" where
  "shift k xs =
     (if 0 \<le> k then take (length xs) (replicate (nat k) NaN @ xs)
      else drop (nat (- k)) xs @ replicate (min (nat (- k)) (length xs)) NaN)"

text \<open>\<open>Series.where(cond, other)\<close> keeps the entries that satisfy \<open>cond\<close>.\<close>

definition where_s :: "(fval \<Rightarrow> bool) \<Rightarrow> fval \<Rightarrow> fval list \<Rightarrow> fval list" where
  "where_s cond other xs = map (\<lambda>x. if cond x then x else other) xs"

text \<open>A series is non-negative when each finite entry is.\<close>

definition nonneg :: "fval \<Rightarrow> bool" where
  "nonneg v = (is_fin v \<longrightarrow> 0 \<le> fin_val v)"

text \<open>
  \<open>Series.rolling(window=w)\<close> has \<open>min_periods = w\<close>: a position has a value only when its
  window holds \<open>w\<close> observations; \<open>NaN\<close> and infinite entries are not observations. A
  negative window is refused with a \<open>ValueError\<close>.
\<close>

definition window_at :: "nat \<Rightarrow> fval list \<Rightarrow> nat \<Rightarrow> fval list" where
  "window_at w xs i = take w (drop (i + 1 - w) xs)"

definition fmean :: "fval list \<Rightarrow> fval" where
  "fmean vs =
     (if vs \<noteq> [] \<and> list_all is_fin vs
      then Fin (sum_list (map fin_val vs) / real (length vs)) else NaN)"

definition fstd :: "fval list \<Rightarrow> fval" where
  "fstd vs =
     (if 2 \<le> length vs \<and> list_all is_fin vs
      then (let m = sum_list (map fin_val vs) / real (length vs)
            in Fin (sqrt (sum_list (map (\<lambda>v. (fin_val v - m)\<^sup>2) vs) / real (length vs - 1))))
      else NaN)"

definition rolling :: "(fval list \<Rightarrow> fval) \<Rightarrow> nat \<Rightarrow> fval list \<Rightarrow> fval list" where
  "rolling agg w xs =
     map (\<lambda>i. if i + 1 < w then NaN else agg (window_at w xs i)) [0..<length xs]"

definition rolling_mean :: "int \<Rightarrow> fval list \<Rightarrow> error + fval list" where
  "rolling_mean window xs =
     (if window < 0 then Inl ValueError else Inr (rolling fmean (nat window) xs))"

definition rolling_std :: "int \<Rightarrow> fval list \<Rightarrow> error + fval list" where
  "rolling_std window xs =
     (if window < 0 then Inl ValueError else Inr (rolling fstd (nat window) xs))"

text \<open>
  \<open>Series.ewm(span=w, adjust=False).mean()\<close>: smoothing factor \<open>2 / (w + 1)\<close>, seeded at
  the first observation; a missing entry repeats the running mean and ages its weight.
  Before the first observation the output is \<open>NaN\<close>. A span below 1 is refused.
\<close>

fun ewm_loop :: "real \<Rightarrow> real option \<Rightarrow> real \<Rightarrow> fval list \<Rightarrow> fval list" where
  "ewm_loop \<alpha> weighted old_wt [] = []"
| "ewm_loop \<alpha> None old_wt (x # xs) =
     (if is_fin x then x # ewm_loop \<alpha> (Some (fin_val x)) old_wt xs
      else NaN # ewm_loop \<alpha> None old_wt xs)"
| "ewm_loop \<alpha> (Some m) old_wt (x # xs) =
     (let ow = old_wt * (1 - \<alpha>) in
      if is_fin x
      then (let c = fin_val x;
                m' = (if m \<noteq> c then (ow * m + \<alpha> * c) / (ow + \<alpha>) else m)
            in Fin m' # ewm_loop \<alpha> (Some m') 1 xs)
      else Fin m # ewm_loop \<alpha> (Some m) ow xs)"

definition ewm_mean :: "int \<Rightarrow> fval list \<Rightarrow> error + fval list" where
  "ewm_mean w xs =
     (if w < 1 then Inl ValueError
      else Inr (ewm_loop (2 / (real_of_int w + 1)) None 1 xs))"

section \<open>Module B: technical indicators\<close>

definition bind_err :: "error + 'a \<Rightarrow> ('a \<Rightarrow> error + 'b) \<Rightarrow> error + 'b" where
  "bind_err r f = (case r of Inl e \<Rightarrow> Inl e | Inr x \<Rightarrow> f x)"

definition calculate_sma :: "fval list \<Rightarrow> int \<Rightarrow> error + fval list" where
  "calculate_sma data window = rolling_mean window data"

definition calculate_ema :: "fval list \<Rightarrow> int \<Rightarrow> error + fval list" where
  "calculate_ema data window = ewm_mean window data"

text \<open>The rolling averages of the gains and of the losses (as positive magnitudes).\<close>

definition rsi_gain :: "fval list \<Rightarrow> int \<Rightarrow> error + fval list" where
  "rsi_gain data window =
     (let delta = diff data
      in rolling_mean window (where_s (\<lambda>d. fgt d (Fin 0)) (Fin 0) delta))"

definition rsi_loss :: "fval list \<Rightarrow> int \<Rightarrow> error + fval list" where
  "rsi_loss data window =
     (let delta = diff data
      in rolling_mean window (map fneg (where_s (\<lambda>d. flt d (Fin 0)) (Fin 0) delta)))"

definition calculate_rsi :: "fval list \<Rightarrow> int \<Rightarrow> error + fval list" where
  "calculate_rsi data window =
     bind_err (rsi_gain data window) (\<lambda>gain.
     bind_err (rsi_loss data window) (\<lambda>loss.
     let rs = map2 fdiv gain loss;
         rsi = map (\<lambda>x. fsub (Fin 100) (fdiv (Fin 100) (fadd (Fin 1) x))) rs
     in Inr rsi))"

text \<open>\<open>Series.pct_change()\<close> on a series without gaps: the relative change to the previous entry.\<close>

definition pct_change :: "fval list \<Rightarrow> fval list" where
  "pct_change xs = map (\<lambda>q. fsub q (Fin 1)) (map2 fdiv xs (shift 1 xs))"

definition calculate_volatility :: "fval list \<Rightarrow> int \<Rightarrow> error + fval list" where
  "calculate_volatility data window =
     (let returns = pct_change data in
      bind_err (rolling_std window returns) (\<lambda>sd.
      Inr (map (\<lambda>v. fmul (fmul v (Fin (sqrt 252))) (Fin 100)) sd)))"

definition calculate_momentum :: "fval list \<Rightarrow> int \<Rightarrow> fval list" where
  "calculate_momentum data window =
     map (\<lambda>q. fmul (fsub q (Fin 1)) (Fin 100)) (map2 fdiv data (shift window data))"

subsection \<open>Price frames and indicator snapshots\<close>

text \<open>
  A DataFrame is its number of rows and its columns, in order; in a well-formed frame
  every column has one entry per row. Reading a column that is absent raises
  \<open>KeyError\<close>, reading a position that is absent raises \<open>IndexError\<close>.
\<close>

record dataframe =
  nrows :: nat
  columns :: "(string \<times> fval list) list"

definition df_ok :: "dataframe \<Rightarrow> bool" where
  "df_ok df = list_all (\<lambda>c. length (snd c) = nrows df) (columns df)"

definition df_empty :: "dataframe \<Rightarrow> bool" where
  "df_empty df = (nrows df = 0 \<or> columns df = [])"

definition has_column :: "dataframe \<Rightarrow> string \<Rightarrow> bool" where
  "has_column df c = (map_of (columns df) c \<noteq> None)"

definition df_col :: "dataframe \<Rightarrow> string \<Rightarrow> error + fval list" where
  "df_col df c = (case map_of (columns df) c of None \<Rightarrow> Inl KeyError | Some xs \<Rightarrow> Inr xs)"

text \<open>\<open>s.iloc[-1]\<close> and \<open>s.iloc[-2]\<close>.\<close>

definition iloc_last :: "'a list \<Rightarrow> error + 'a" where
  "iloc_last xs = (if xs = [] then Inl IndexError else Inr (last xs))"

definition iloc_prev :: "'a list \<Rightarrow> error + 'a" where
  "iloc_prev xs = (if length xs < 2 then Inl IndexError else Inr (xs ! (length xs - 2)))"

text \<open>
  The dictionary \<open>latest\<close>: \<open>current_price\<close> is a float when the key is present; every
  other entry is a float or \<open>None\<close>, and \<open>None\<close> also stands for an absent key, which
  \<open>dict.get\<close> reads as \<open>None\<close>.
\<close>

record latest =
  current_price :: "fval option"
  l_sma_20 :: "fval option"
  l_sma_50 :: "fval option"
  l_sma_200 :: "fval option"
  l_rsi :: "fval option"
  l_volatility :: "fval option"
  l_momentum :: "fval option"

text \<open>The dictionary of series: \<open>None\<close> is an absent key (or, for \<open>volume_avg\<close>, the value \<open>None\<close>).\<close>

record series =
  s_sma_20 :: "fval list option"
  s_sma_50 :: "fval list option"
  s_sma_200 :: "fval list option"
  s_ema_12 :: "fval list option"
  s_ema_26 :: "fval list option"
  s_rsi :: "fval list option"
  s_volatility :: "fval list option"
  s_momentum :: "fval list option"
  s_volume_avg :: "fval list option"

text \<open>The dictionary returned by \<open>calculate_all_indicators\<close>; each key may be absent.\<close>

record indicator_dict =
  d_error :: "string option"
  d_indicators :: "series option"
  d_latest :: "latest option"
  d_success :: "bool option"

definition not_na :: "fval \<Rightarrow> fval option" where
  "not_na x = (if \<not> isna x then Some x else None)"

definition calculate_all_indicators :: "dataframe \<Rightarrow> error + indicator_dict" where
  "calculate_all_indicators price_data =
     (if df_empty price_data \<or> \<not> has_column price_data ''Close''
      then Inr \<lparr>d_error = Some ''Invalid price data'', d_indicators = None,
                 d_latest = None, d_success = None\<rparr>
      else
      bind_err (df_col price_data ''Close'') (\<lambda>close.
      bind_err (calculate_sma close 20) (\<lambda>sma_20.
      bind_err (calculate_sma close 50) (\<lambda>sma_50.
      bind_err (calculate_sma close 200) (\<lambda>sma_200.
      bind_err (calculate_ema close 12) (\<lambda>ema_12.
      bind_err (calculate_ema close 26) (\<lambda>ema_26.
      bind_err (calculate_rsi close 14) (\<lambda>rsi.
      bind_err (calculate_volatility close 20) (\<lambda>volatility.
      let momentum = calculate_momentum close 10 in
      bind_err (if has_column price_data ''Volume''
                then bind_err (df_col price_data ''Volume'') (\<lambda>v.
                     bind_err (rolling_mean 20 v) (\<lambda>m. Inr (Some m)))
                else Inr None) (\<lambda>volume_avg.
      bind_err (iloc_last close) (\<lambda>cp.
      bind_err (iloc_last sma_20) (\<lambda>x_sma_20.
      bind_err (iloc_last sma_50) (\<lambda>x_sma_50.
      bind_err (iloc_last sma_200) (\<lambda>x_sma_200.
      bind_err (iloc_last rsi) (\<lambda>x_rsi.
      bind_err (iloc_last volatility) (\<lambda>x_volatility.
      bind_err (iloc_last momentum) (\<lambda>x_momentum.
      Inr \<lparr>d_error = None,
          d_indicators = Some \<lparr>s_sma_20 = Some sma_20, s_sma_50 = Some sma_50,
            s_sma_200 = Some sma_200, s_ema_12 = Some ema_12, s_ema_26 = Some ema_26,
            s_rsi = Some rsi, s_volatility = Some volatility, s_momentum = Some momentum,
            s_volume_avg = volume_avg\<rparr>,
          d_latest = Some \<lparr>current_price = Some cp, l_sma_20 = not_na x_sma_20,
            l_sma_50 = not_na x_sma_50, l_sma_200 = not_na x_sma_200, l_rsi = not_na x_rsi,
            l_volatility = not_na x_volatility, l_momentum = not_na x_momentum\<rparr>,
          d_success = Some True\<rparr>)))))))))))))))))"

section \<open>Strings\<close>

text \<open>
  Strings are sequences of ASCII characters. \<open>str.upper\<close> and \<open>str.lower\<close> change the
  26 letters, \<open>str.strip\<close> removes the white space of ASCII at both ends, \<open>sep.join\<close>
  puts the separator between the parts, \<open>str(n)\<close> is the decimal numeral.
\<close>

definition upper_char :: "char \<Rightarrow> char" where
  "upper_char c =
     (case map_of (zip ''abcdefghijklmnopqrstuvwxyz'' ''ABCDEFGHIJKLMNOPQRSTUVWXYZ'') c of
        None \<Rightarrow> c | Some u \<Rightarrow> u)"

definition lower_char :: "char \<Rightarrow> char" where
  "lower_char c =
     (case map_of (zip ''ABCDEFGHIJKLMNOPQRSTUVWXYZ'' ''abcdefghijklmnopqrstuvwxyz'') c of
        None \<Rightarrow> c | Some l \<Rightarrow> l)"

definition upper :: "string \<Rightarrow> string" where
  "upper s = map upper_char s"

definition lower :: "string \<Rightarrow> string" where
  "lower s = map lower_char s"

definition is_space :: "char \<Rightarrow> bool" where
  "is_space c = (of_char c \<in> {9, 10, 11, 12, 13, 28, 29, 30, 31, 32 :: nat})"

definition strip :: "string \<Rightarrow> string" where
  "strip s = rev (dropWhile is_space (rev (dropWhile is_space s)))"

fun join :: "string \<Rightarrow> string list \<Rightarrow> string" where
  "join sep [] = []"
| "join sep [x] = x"
| "join sep (x # y # ys) = x @ sep @ join sep (y # ys)"

fun str_nat :: "nat \<Rightarrow> string" where
  "str_nat n =
     (if n < 10 then [''0123456789'' ! n]
      else str_nat (n div 10) @ [''0123456789'' ! (n mod 10)])"

section \<open>Module C: signal engine\<close>

text \<open>
  The two score accumulators and the list of reasons. A rule of the engine is a step on
  this state. The format specifications \<open>:.1f\<close> and \<open>:.2f\<close> of the reason strings are
  the parameter \<open>fmt\<close>, applied to the number of decimals and the value.
\<close>

record acc =
  buy_score :: int
  sell_score :: int
  reasons :: "string list"

type_synonym fmt = "nat \<Rightarrow> fval \<Rightarrow> string"

definition acc0 :: acc where
  "acc0 = \<lparr>buy_score = 0, sell_score = 0, reasons = []\<rparr>"

definition add_buy :: "int \<Rightarrow> string \<Rightarrow> acc \<Rightarrow> acc" where
  "add_buy n r a = a\<lparr>buy_score := buy_score a + n, reasons := reasons a @ [r]\<rparr>"

definition add_sell :: "int \<Rightarrow> string \<Rightarrow> acc \<Rightarrow> acc" where
  "add_sell n r a = a\<lparr>sell_score := sell_score a + n, reasons := reasons a @ [r]\<rparr>"

definition add_note :: "string \<Rightarrow> acc \<Rightarrow> acc" where
  "add_note r a = a\<lparr>reasons := reasons a @ [r]\<rparr>"

text \<open>\<open>indicators.get('success', False)\<close>, \<open>.get('latest', {})\<close>, \<open>.get('indicators', {})\<close>.\<close>

definition success :: "indicator_dict \<Rightarrow> bool" where
  "success ind = (d_success ind = Some True)"

definition get_latest :: "indicator_dict \<Rightarrow> latest" where
  "get_latest ind =
     (case d_latest ind of
        None \<Rightarrow> \<lparr>current_price = None, l_sma_20 = None, l_sma_50 = None, l_sma_200 = None,
                  l_rsi = None, l_volatility = None, l_momentum = None\<rparr>
      | Some l \<Rightarrow> l)"

definition get_indicators :: "indicator_dict \<Rightarrow> series" where
  "get_indicators ind =
     (case d_indicators ind of
        None \<Rightarrow> \<lparr>s_sma_20 = None, s_sma_50 = None, s_sma_200 = None, s_ema_12 = None,
                  s_ema_26 = None, s_rsi = None, s_volatility = None, s_momentum = None,
                  s_volume_avg = None\<rparr>
      | Some s \<Rightarrow> s)"

text \<open>\<open>latest.get('current_price', 0)\<close> and \<open>indicator_series.get(key, pd.Series())\<close>.\<close>

definition get_current_price :: "latest \<Rightarrow> fval" where
  "get_current_price l = (case current_price l of None \<Rightarrow> Fin 0 | Some p \<Rightarrow> p)"

definition get_or_empty :: "fval list option \<Rightarrow> fval list" where
  "get_or_empty s = (case s of None \<Rightarrow> [] | Some xs \<Rightarrow> xs)"

subsection \<open>Short-term signal\<close>

definition rsi_analysis :: "fmt \<Rightarrow> fval option \<Rightarrow> acc \<Rightarrow> acc" where
  "rsi_analysis fmt rsi a =
     (case rsi of
        None \<Rightarrow> a
      | Some r \<Rightarrow>
          if flt r (Fin 30) then add_buy 2 (''RSI = '' @ fmt 1 r @ '' (oversold)'') a
          else if fgt r (Fin 70) then add_sell 2 (''RSI = '' @ fmt 1 r @ '' (overbought)'') a
          else if fle (Fin 30) r \<and> fle r (Fin 40)
            then add_buy 1 (''RSI = '' @ fmt 1 r @ '' (approaching oversold)'') a
          else if fle (Fin 60) r \<and> fle r (Fin 70)
            then add_sell 1 (''RSI = '' @ fmt 1 r @ '' (approaching overbought)'') a
          else a)"

definition sma20_analysis ::
  "fval option \<Rightarrow> fval \<Rightarrow> fval list \<Rightarrow> dataframe \<Rightarrow> acc \<Rightarrow> error + acc" where
  "sma20_analysis sma_20 cp sma_20_series price_data a =
     (case sma_20 of
        None \<Rightarrow> Inr a
      | Some s20 \<Rightarrow>
          if fgt cp (Fin 0) \<and> sma_20_series \<noteq> [] \<and> 2 \<le> length sma_20_series then
            bind_err (if 2 \<le> nrows price_data
                      then bind_err (df_col price_data ''Close'') iloc_prev
                      else Inr cp) (\<lambda>prev_price.
            let prev_sma20 = (if 2 \<le> length sma_20_series
                              then sma_20_series ! (length sma_20_series - 2) else s20) in
            Inr (if fle prev_price prev_sma20 \<and> fgt cp s20
                   then add_buy 2 ''Price crossed above SMA20 (bullish breakout)'' a
                 else if fge prev_price prev_sma20 \<and> flt cp s20
                   then add_sell 2 ''Price crossed below SMA20 (bearish breakdown)'' a
                 else if fgt cp (fmul s20 (Fin (102 / 100)))
                   then add_buy 1 ''Price significantly above SMA20'' a
                 else if flt cp (fmul s20 (Fin (98 / 100)))
                   then add_sell 1 ''Price significantly below SMA20'' a
                 else a))
          else Inr a)"

definition momentum_analysis :: "fmt \<Rightarrow> fval option \<Rightarrow> acc \<Rightarrow> acc" where
  "momentum_analysis fmt momentum a =
     (case momentum of
        None \<Rightarrow> a
      | Some m \<Rightarrow>
          if fgt m (Fin 5)
            then add_buy 1 (''Strong positive momentum ('' @ fmt 1 m @ ''%)'') a
          else if flt m (Fin (- 5))
            then add_sell 1 (''Strong negative momentum ('' @ fmt 1 m @ ''%)'') a
          else a)"

definition volume_analysis :: "fval list option \<Rightarrow> dataframe \<Rightarrow> acc \<Rightarrow> error + acc" where
  "volume_analysis volume_avg price_data a =
     (case volume_avg of
        None \<Rightarrow> Inr a
      | Some va \<Rightarrow>
          if va \<noteq> [] \<and> has_column price_data ''Volume'' then
            bind_err (bind_err (df_col price_data ''Volume'') iloc_last) (\<lambda>current_volume.
            bind_err (iloc_last va) (\<lambda>avg_volume.
            if \<not> isna avg_volume \<and> fgt avg_volume (Fin 0) then
              (let volume_ratio = fdiv current_volume avg_volume in
               if fgt volume_ratio (Fin (15 / 10)) then
                 (if buy_score a > sell_score a
                    then Inr (add_note ''High volume confirms bullish move'' a)
                  else if sell_score a > buy_score a
                    then Inr (add_note ''High volume confirms bearish move'' a)
                  else Inr a)
               else Inr a)
            else Inr a))
          else Inr a)"

definition short_term_decision :: "int \<Rightarrow> int \<Rightarrow> string" where
  "short_term_decision buy sell =
     (if buy > sell \<and> buy \<ge> 2 then ''BUY''
      else if sell > buy \<and> sell \<ge> 2 then ''SELL''
      else ''HOLD'')"

text \<open>The state after the RSI, SMA20 and momentum rules, and after the volume step.\<close>

definition short_term_rules :: "fmt \<Rightarrow> indicator_dict \<Rightarrow> dataframe \<Rightarrow> error + acc" where
  "short_term_rules fmt ind price_data =
     (let l = get_latest ind; indicator_series = get_indicators ind;
          cp = get_current_price l
      in bind_err (sma20_analysis (l_sma_20 l) cp (get_or_empty (s_sma_20 indicator_series))
                     price_data (rsi_analysis fmt (l_rsi l) acc0))
           (\<lambda>a. Inr (momentum_analysis fmt (l_momentum l) a)))"

definition short_term_scores :: "fmt \<Rightarrow> indicator_dict \<Rightarrow> dataframe \<Rightarrow> error + acc" where
  "short_term_scores fmt ind price_data =
     bind_err (short_term_rules fmt ind price_data)
       (volume_analysis (s_volume_avg (get_indicators ind)) price_data)"

definition generate_short_term_signal ::
  "fmt \<Rightarrow> indicator_dict \<Rightarrow> dataframe \<Rightarrow> error + string \<times> string" where
  "generate_short_term_signal fmt ind price_data =
     (if \<not> success ind then Inr (''HOLD'', ''Insufficient data for analysis'')
      else bind_err (short_term_scores fmt ind price_data) (\<lambda>a.
        Inr (short_term_decision (buy_score a) (sell_score a),
             if reasons a \<noteq> [] then join '', '' (reasons a)
             else ''Neutral technical indicators'')))"

subsection \<open>Long-term signal\<close>

definition sma200_analysis :: "fmt \<Rightarrow> fval option \<Rightarrow> fval \<Rightarrow> acc \<Rightarrow> acc" where
  "sma200_analysis fmt sma_200 cp a =
     (case sma_200 of
        None \<Rightarrow> a
      | Some s200 \<Rightarrow>
          if fgt cp (Fin 0) then
            (if fgt cp s200
               then add_buy 3 (''Price ('' @ fmt 2 cp @ '') above SMA200 ('' @ fmt 2 s200
                                @ '') - long-term uptrend'') a
             else add_sell 2 (''Price ('' @ fmt 2 cp @ '') below SMA200 ('' @ fmt 2 s200
                                @ '') - long-term downtrend'') a)
          else a)"

definition cross_analysis ::
  "fval option \<Rightarrow> fval option \<Rightarrow> fval list \<Rightarrow> fval list \<Rightarrow> acc \<Rightarrow> acc" where
  "cross_analysis sma_50 sma_200 sma_50_series sma_200_series a =
     (case sma_50 of
        None \<Rightarrow> a
      | Some s50 \<Rightarrow>
         (case sma_200 of
            None \<Rightarrow> a
          | Some s200 \<Rightarrow>
              if sma_50_series \<noteq> [] \<and> sma_200_series \<noteq> [] \<and> 2 \<le> length sma_50_series then
                (let prev_sma50 = sma_50_series ! (length sma_50_series - 2);
                     prev_sma200 = (if 2 \<le> length sma_200_series
                                    then sma_200_series ! (length sma_200_series - 2) else s200)
                 in if fle prev_sma50 prev_sma200 \<and> fgt s50 s200
                      then add_buy 3
                        ''Golden Cross detected (SMA50 > SMA200) - strong bullish signal'' a
                    else if fge prev_sma50 prev_sma200 \<and> flt s50 s200
                      then add_sell 3
                        ''Death Cross detected (SMA50 < SMA200) - strong bearish signal'' a
                    else if fgt s50 s200 then add_buy 1 ''SMA50 above SMA200 - positive trend'' a
                    else if flt s50 s200 then add_sell 1 ''SMA50 below SMA200 - negative trend'' a
                    else a)
              else a))"

definition lt_momentum_analysis :: "fmt \<Rightarrow> fval option \<Rightarrow> acc \<Rightarrow> acc" where
  "lt_momentum_analysis fmt momentum a =
     (case momentum of
        None \<Rightarrow> a
      | Some m \<Rightarrow>
          if fgt m (Fin 10)
            then add_buy 2 (''Strong long-term momentum ('' @ fmt 1 m @ ''%)'') a
          else if flt m (Fin (- 10))
            then add_sell 2 (''Weak long-term momentum ('' @ fmt 1 m @ ''%)'') a
          else a)"

text \<open>An analyst recommendation is a dictionary from field names to strings.\<close>

type_synonym recommendation = "(string \<times> string) list"

definition to_grade :: "recommendation \<Rightarrow> string" where
  "to_grade rec = (case map_of rec ''toGrade'' of None \<Rightarrow> [] | Some g \<Rightarrow> g)"

definition analyst_analysis :: "recommendation list option \<Rightarrow> acc \<Rightarrow> acc" where
  "analyst_analysis recommendations a =
     (case recommendations of
        None \<Rightarrow> a
      | Some recs \<Rightarrow>
          if recs \<noteq> [] then
            (let recent_recommendations =
                   (if 5 \<le> length recs then drop (length recs - 5) recs else recs);
                 buy_count = length (filter (\<lambda>rec. upper (to_grade rec) \<in>
                     set [''BUY'', ''STRONG BUY'', ''OUTPERFORM'']) recent_recommendations);
                 sell_count = length (filter (\<lambda>rec. upper (to_grade rec) \<in>
                     set [''SELL'', ''STRONG SELL'', ''UNDERPERFORM'']) recent_recommendations)
             in if buy_count > sell_count * 2
                  then add_buy 1 (''Analyst sentiment: '' @ str_nat buy_count
                                   @ '' buy recommendations'') a
                else if sell_count > buy_count * 2
                  then add_sell 1 (''Analyst sentiment: '' @ str_nat sell_count
                                    @ '' sell recommendations'') a
                else a)
          else a)"

definition long_term_decision :: "int \<Rightarrow> int \<Rightarrow> string" where
  "long_term_decision buy sell =
     (if buy \<ge> 4 then ''BUY''
      else if sell \<ge> 4 then ''SELL''
      else if buy > sell then ''HOLD (Bullish)''
      else if sell > buy then ''HOLD (Bearish)''
      else ''HOLD'')"

definition long_term_scores ::
  "fmt \<Rightarrow> indicator_dict \<Rightarrow> recommendation list option \<Rightarrow> acc" where
  "long_term_scores fmt ind recommendations =
     (let l = get_latest ind; indicator_series = get_indicators ind;
          cp = get_current_price l
      in analyst_analysis recommendations
           (lt_momentum_analysis fmt (l_momentum l)
             (cross_analysis (l_sma_50 l) (l_sma_200 l)
                (get_or_empty (s_sma_50 indicator_series))
                (get_or_empty (s_sma_200 indicator_series))
               (sma200_analysis fmt (l_sma_200 l) cp acc0))))"

definition generate_long_term_signal ::
  "fmt \<Rightarrow> indicator_dict \<Rightarrow> dataframe \<Rightarrow> recommendation list option \<Rightarrow> string \<times> string" where
  "generate_long_term_signal fmt ind price_data recommendations =
     (if \<not> success ind then (''HOLD'', ''Insufficient data for analysis'')
      else (let a = long_term_scores fmt ind recommendations
            in (long_term_decision (buy_score a) (sell_score a),
                if reasons a \<noteq> [] then join '', '' (reasons a)
                else ''Mixed long-term indicators'')))"

section \<open>Stock search\<close>

text \<open>The table of popular stocks, in the order of the source: ticker, company name, sector.\<close>

definition POPULAR_STOCKS :: "(string \<times> string \<times> string) list" where
  "POPULAR_STOCKS =
     [(''AAPL'', ''Apple Inc.'', ''Technology''),
      (''MSFT'', ''Microsoft Corporation'', ''Technology''),
      (''GOOGL'', ''Alphabet Inc.'', ''Technology''),
      (''GOOG'', ''Alphabet Inc.'', ''Technology''),
      (''AMZN'', ''Amazon.com Inc.'', ''Consumer Cyclical''),
      (''META'', ''Meta Platforms Inc.'', ''Technology''),
      (''NVDA'', ''NVIDIA Corporation'', ''Technology''),
      (''TSLA'', ''Tesla Inc.'', ''Consumer Cyclical''),
      (''NFLX'', ''Netflix Inc.'', ''Communication Services''),
      (''AMD'', ''Advanced Micro Devices'', ''Technology''),
      (''INTC'', ''Intel Corporation'', ''Technology''),
      (''CRM'', ''Salesforce Inc.'', ''Technology''),
      (''ORCL'', ''Oracle Corporation'', ''Technology''),
      (''IBM'', ''International Business Machines'', ''Technology''),
      (''CSCO'', ''Cisco Systems Inc.'', ''Technology''),
      (''JPM'', ''JPMorgan Chase & Co.'', ''Financial Services''),
      (''BAC'', ''Bank of America Corp'', ''Financial Services''),
      (''WFC'', ''Wells Fargo & Company'', ''Financial Services''),
      (''GS'', ''Goldman Sachs Group Inc.'', ''Financial Services''),
      (''MS'', ''Morgan Stanley'', ''Financial Services''),
      (''C'', ''Citigroup Inc.'', ''Financial Services''),
      (''JNJ'', ''Johnson & Johnson'', ''Healthcare''),
      (''UNH'', ''UnitedHealth Group Inc.'', ''Healthcare''),
      (''PFE'', ''Pfizer Inc.'', ''Healthcare''),
      (''ABBV'', ''AbbVie Inc.'', ''Healthcare''),
      (''MRK'', ''Merck & Co. Inc.'', ''Healthcare''),
      (''TMO'', ''Thermo Fisher Scientific Inc.'', ''Healthcare''),
      (''WMT'', ''Walmart Inc.'', ''Consumer Defensive''),
      (''PG'', ''Procter & Gamble Co.'', ''Consumer Defensive''),
      (''KO'', ''The Coca-Cola Company'', ''Consumer Defensive''),
      (''PEP'', ''PepsiCo Inc.'', ''Consumer Defensive''),
      (''NKE'', ''Nike Inc.'', ''Consumer Cyclical''),
      (''SBUX'', ''Starbucks Corporation'', ''Consumer Cyclical''),
      (''MCD'', ''McDonald's Corporation'', ''Consumer Cyclical''),
      (''BA'', ''The Boeing Company'', ''Industrials''),
      (''CAT'', ''Caterpillar Inc.'', ''Industrials''),
      (''GE'', ''General Electric Company'', ''Industrials''),
      (''HON'', ''Honeywell International Inc.'', ''Industrials''),
      (''XOM'', ''Exxon Mobil Corporation'', ''Energy''),
      (''CVX'', ''Chevron Corporation'', ''Energy''),
      (''COP'', ''ConocoPhillips'', ''Energy''),
      (''VZ'', ''Verizon Communications Inc.'', ''Communication Services''),
      (''T'', ''AT&T Inc.'', ''Communication Services''),
      (''DIS'', ''The Walt Disney Company'', ''Communication Services''),
      (''CMCSA'', ''Comcast Corporation'', ''Communication Services''),
      (''V'', ''Visa Inc.'', ''Financial Services''),
      (''MA'', ''Mastercard Incorporated'', ''Financial Services''),
      (''HD'', ''The Home Depot Inc.'', ''Consumer Cyclical''),
      (''MRNA'', ''Moderna Inc.'', ''Healthcare''),
      (''PYPL'', ''PayPal Holdings Inc.'', ''Financial Services''),
      (''UBER'', ''Uber Technologies Inc.'', ''Technology''),
      (''LYFT'', ''Lyft Inc.'', ''Technology''),
      (''SPOT'', ''Spotify Technology S.A.'', ''Communication Services''),
      (''SQ'', ''Block Inc.'', ''Technology''),
      (''SHOP'', ''Shopify Inc.'', ''Technology''),
      (''ZM'', ''Zoom Video Communications'', ''Technology''),
      (''ROKU'', ''Roku Inc.'', ''Communication Services'')]"

record stock_match =
  ticker :: string
  name :: string
  sector :: string
  match_type :: string

text \<open>The loop over the table that collects the tickers starting with the query.\<close>

fun prefix_loop ::
  "string \<Rightarrow> (string \<times> string \<times> string) list \<Rightarrow> stock_match list \<Rightarrow> stock_match list" where
  "prefix_loop query_upper [] results = results"
| "prefix_loop query_upper ((t, n, s) # rest) results =
     prefix_loop query_upper rest
       (if prefix query_upper t \<and> t \<noteq> query_upper
        then results @ [\<lparr>ticker = t, name = n, sector = s, match_type = ''ticker_prefix''\<rparr>]
        else results)"

text \<open>The loop that collects the companies whose name contains the query and that are not listed yet.\<close>

fun name_loop ::
  "string \<Rightarrow> (string \<times> string \<times> string) list \<Rightarrow> stock_match list \<Rightarrow> stock_match list" where
  "name_loop query_lower [] results = results"
| "name_loop query_lower ((t, n, s) # rest) results =
     name_loop query_lower rest
       (if sublist query_lower (lower n) \<and> t \<notin> set (map ticker results)
        then results @ [\<lparr>ticker = t, name = n, sector = s, match_type = ''name_match''\<rparr>]
        else results)"

definition priority :: "string \<Rightarrow> nat" where
  "priority mt =
     (case map_of [(''ticker_exact'', 0), (''ticker_prefix'', 1), (''name_match'', 2)] mt of
        None \<Rightarrow> 3 | Some p \<Rightarrow> p)"

text \<open>The slice \<open>xs[:n]\<close>: a negative \<open>n\<close> counts from the end.\<close>

definition slice_to :: "'a list \<Rightarrow> int \<Rightarrow> 'a list" where
  "slice_to xs n = (if 0 \<le> n then take (nat n) xs else take (nat (int (length xs) + n)) xs)"

definition search_stocks :: "string \<Rightarrow> int \<Rightarrow> stock_match list" where
  "search_stocks query limit =
     (if query = [] then []
      else
        (let query_upper = strip (upper query);
             results = (case map_of POPULAR_STOCKS query_upper of
                          None \<Rightarrow> []
                        | Some (n, s) \<Rightarrow> [\<lparr>ticker = query_upper, name = n, sector = s,
                                           match_type = ''ticker_exact''\<rparr>]);
             results = prefix_loop query_upper POPULAR_STOCKS results;
             query_lower = strip (lower query);
             results = name_loop query_lower POPULAR_STOCKS results;
             results = sort_key (\<lambda>x. (priority (match_type x), ticker x)) results
         in slice_to results limit))"

text \<open>
  The ranking as the specification words it: the exact ticker match, then the tickers
  that start with the query, then the companies whose lower-cased name contains the
  query and that are not listed yet; the last two groups sorted by ticker; the whole
  cut to \<open>limit\<close> entries.
\<close>

definition mk_match :: "string \<Rightarrow> string \<times> string \<times> string \<Rightarrow> stock_match" where
  "mk_match mt e = \<lparr>ticker = fst e, name = fst (snd e), sector = snd (snd e), match_type = mt\<rparr>"

definition exact_matches :: "string \<Rightarrow> stock_match list" where
  "exact_matches q = map (mk_match ''ticker_exact'') (filter (\<lambda>e. fst e = q) POPULAR_STOCKS)"

definition prefix_matches :: "string \<Rightarrow> stock_match list" where
  "prefix_matches q =
     map (mk_match ''ticker_prefix'') (filter (\<lambda>e. prefix q (fst e) \<and> fst e \<noteq> q) POPULAR_STOCKS)"

definition name_matches :: "string \<Rightarrow> string \<Rightarrow> stock_match list" where
  "name_matches q_upper q_lower =
     map (mk_match ''name_match'')
       (filter (\<lambda>e. sublist q_lower (lower (fst (snd e))) \<and> \<not> prefix q_upper (fst e)) POPULAR_STOCKS)"

definition search_spec :: "string \<Rightarrow> nat \<Rightarrow> stock_match list" where
  "search_spec query limit =
     (let q_upper = strip (upper query); q_lower = strip (lower query)
      in take limit (exact_matches q_upper @ sort_key ticker (prefix_matches q_upper)
                       @ sort_key ticker (name_matches q_upper q_lower)))"


section \<open>Example inputs\<close>

text \<open>A formatter that is right on whole numbers, for the examples below.\<close>

definition fmt_whole :: fmt where
  "fmt_whole p v =
     (case v of
        NaN \<Rightarrow> ''nan'' | PInf \<Rightarrow> ''inf'' | NInf \<Rightarrow> ''-inf''
      | Fin r \<Rightarrow> (if r < 0 then ''-'' else []) @ str_nat (nat \<lfloor>\<bar>r\<bar>\<rfloor>) @ ''.''
                  @ replicate p CHR ''0'')"

definition no_latest :: latest where
  "no_latest = \<lparr>current_price = None, l_sma_20 = None, l_sma_50 = None, l_sma_200 = None,
     l_rsi = None, l_volatility = None, l_momentum = None\<rparr>"

definition no_series :: series where
  "no_series = \<lparr>s_sma_20 = None, s_sma_50 = None, s_sma_200 = None, s_ema_12 = None,
     s_ema_26 = None, s_rsi = None, s_volatility = None, s_momentum = None,
     s_volume_avg = None\<rparr>"

definition snapshot :: "latest \<Rightarrow> series \<Rightarrow> indicator_dict" where
  "snapshot l s = \<lparr>d_error = None, d_indicators = Some s, d_latest = Some l,
     d_success = Some True\<rparr>"

definition failed :: indicator_dict where
  "failed = \<lparr>d_error = Some ''Invalid price data'', d_indicators = None, d_latest = None,
     d_success = None\<rparr>"

definition no_frame :: dataframe where
  "no_frame = \<lparr>nrows = 0, columns = []\<rparr>"

definition ex_uptrend :: indicator_dict where
  "ex_uptrend = snapshot
     (no_latest\<lparr>current_price := Some (Fin 150), l_sma_200 := Some (Fin 100)\<rparr>) no_series"

definition ex_uptrend_sma50 :: indicator_dict where
  "ex_uptrend_sma50 = snapshot
     (no_latest\<lparr>current_price := Some (Fin 150), l_sma_50 := Some (Fin 120),
        l_sma_200 := Some (Fin 100)\<rparr>)
     (no_series\<lparr>s_sma_50 := Some [Fin 110, Fin 120], s_sma_200 := Some [Fin 100, Fin 100]\<rparr>)"

definition ex_golden :: indicator_dict where
  "ex_golden = snapshot
     (no_latest\<lparr>current_price := Some (Fin 150), l_sma_50 := Some (Fin 120),
        l_sma_200 := Some (Fin 100)\<rparr>)
     (no_series\<lparr>s_sma_50 := Some [Fin 90, Fin 120], s_sma_200 := Some [Fin 100, Fin 100]\<rparr>)"

definition ex_at_sma200 :: indicator_dict where
  "ex_at_sma200 = snapshot
     (no_latest\<lparr>current_price := Some (Fin 100), l_sma_200 := Some (Fin 100)\<rparr>) no_series"

definition ex_oversold_volume :: indicator_dict where
  "ex_oversold_volume = snapshot
     (no_latest\<lparr>current_price := Some (Fin 100), l_rsi := Some (Fin 25)\<rparr>)
     (no_series\<lparr>s_volume_avg := Some [Fin 1000]\<rparr>)"

definition ex_frame :: dataframe where
  "ex_frame = \<lparr>nrows = 1, columns = [(''Close'', [Fin 100]), (''Volume'', [Fin 2000])]\<rparr>"

definition rising :: "fval list" where
  "rising = [Fin 1, Fin 2, Fin 3, Fin 4, Fin 5, Fin 6, Fin 7, Fin 8, Fin 9, Fin 10,
     Fin 11, Fin 12, Fin 13, Fin 14, Fin 15]"

definition three_closes :: "fval list" where
  "three_closes = [Fin 100, Fin 90, Fin 80]"

lemmas series_defs = calculate_sma_def calculate_ema_def calculate_rsi_def rsi_gain_def
  rsi_loss_def rolling_mean_def rolling_def window_at_def fmean_def ewm_mean_def diff_def
  where_s_def bind_err_def fsub_def fgt_def Let_def

lemmas example_defs = fmt_whole_def no_latest_def no_series_def snapshot_def failed_def
  no_frame_def ex_uptrend_def ex_uptrend_sma50_def ex_golden_def ex_at_sma200_def
  ex_oversold_volume_def ex_frame_def rising_def three_closes_def

lemmas engine_defs = success_def get_latest_def get_indicators_def get_current_price_def
  get_or_empty_def acc0_def add_buy_def add_sell_def add_note_def bind_err_def
  rsi_analysis_def sma20_analysis_def momentum_analysis_def volume_analysis_def
  short_term_rules_def short_term_scores_def short_term_decision_def
  sma200_analysis_def cross_analysis_def lt_momentum_analysis_def analyst_analysis_def
  long_term_scores_def long_term_decision_def fgt_def fge_def isna_def

section \<open>Frames\<close>

lemma df_ok_column_length:
  assumes "df_ok df" and "map_of (columns df) c = Some xs"
  shows "length xs = nrows df"
proof -
  from assms(2) have "(c, xs) \<in> set (columns df)" by (rule map_of_SomeD)
  with assms(1) show ?thesis by (auto simp: df_ok_def list_all_iff)
qed

section \<open>The indicators\<close>

subsection \<open>Rolling windows\<close>

lemma length_rolling: "length (rolling agg w xs) = length xs"
  by (simp add: rolling_def)

lemma nth_rolling:
  assumes "i < length xs"
  shows "rolling agg w xs ! i = (if i + 1 < w then NaN else agg (window_at w xs i))"
  using assms by (simp add: rolling_def)

lemma rolling_short:
  assumes "length xs < w"
  shows "rolling agg w xs = replicate (length xs) NaN"
proof (rule nth_equalityI)
  show "length (rolling agg w xs) = length (replicate (length xs) NaN)"
    by (simp add: length_rolling)
next
  fix i assume "i < length (rolling agg w xs)"
  then have "i < length xs" by (simp add: length_rolling)
  with assms show "rolling agg w xs ! i = replicate (length xs) NaN ! i"
    by (simp add: nth_rolling)
qed

lemma set_window_at: "set (window_at w xs i) \<subseteq> set xs"
  unfolding window_at_def by (meson set_take_subset set_drop_subset subset_trans)

lemma fmean_nonneg:
  assumes "\<forall>v \<in> set vs. nonneg v"
  shows "fmean vs = NaN \<or> (\<exists>m. fmean vs = Fin m \<and> 0 \<le> m)"
proof (cases "vs \<noteq> [] \<and> list_all is_fin vs")
  case False
  then show ?thesis by (auto simp: fmean_def)
next
  case True
  with assms have "\<forall>v \<in> set vs. 0 \<le> fin_val v"
    by (auto simp: nonneg_def list_all_iff)
  then have "0 \<le> sum_list (map fin_val vs)"
    by (intro sum_list_nonneg) auto
  then have "0 \<le> sum_list (map fin_val vs) / real (length vs)" by simp
  with True show ?thesis by (simp add: fmean_def)
qed

lemma rolling_mean_nonneg:
  assumes "\<forall>v \<in> set xs. nonneg v" and "i < length xs"
  shows "rolling fmean w xs ! i = NaN \<or> (\<exists>m. rolling fmean w xs ! i = Fin m \<and> 0 \<le> m)"
proof (cases "i + 1 < w")
  case True
  with assms(2) show ?thesis by (simp add: nth_rolling)
next
  case False
  from assms(1) set_window_at [of w xs i] have "\<forall>v \<in> set (window_at w xs i). nonneg v" by blast
  from fmean_nonneg [OF this] False assms(2) show ?thesis by (simp add: nth_rolling)
qed

lemma length_diff: "length (diff xs) = length xs"
  by (cases xs) (simp_all add: diff_def)

lemma gains_nonneg: "\<forall>v \<in> set (where_s (\<lambda>d. fgt d (Fin 0)) (Fin 0) ds). nonneg v"
proof
  fix v assume "v \<in> set (where_s (\<lambda>d. fgt d (Fin 0)) (Fin 0) ds)"
  then have "v = Fin 0 \<or> fgt v (Fin 0)" by (auto simp: where_s_def)
  then show "nonneg v" by (cases v) (auto simp: nonneg_def fgt_def)
qed

lemma losses_nonneg: "\<forall>v \<in> set (map fneg (where_s (\<lambda>d. flt d (Fin 0)) (Fin 0) ds)). nonneg v"
proof
  fix v assume "v \<in> set (map fneg (where_s (\<lambda>d. flt d (Fin 0)) (Fin 0) ds))"
  then obtain d where v: "v = fneg d" and "d = Fin 0 \<or> flt d (Fin 0)"
    by (auto simp: where_s_def)
  then show "nonneg v" by (cases d) (auto simp: nonneg_def)
qed

text \<open>The shape of the three series of \<open>calculate_rsi\<close>.\<close>

lemma calculate_rsi_parts:
  assumes "calculate_rsi data window = Inr out"
  shows "\<exists>gain loss. rsi_gain data window = Inr gain \<and> rsi_loss data window = Inr loss
    \<and> length gain = length data \<and> length loss = length data \<and> length out = length data
    \<and> (\<forall>i < length data.
           out ! i = fsub (Fin 100) (fdiv (Fin 100) (fadd (Fin 1) (fdiv (gain ! i) (loss ! i))))
         \<and> (gain ! i = NaN \<or> (\<exists>g. gain ! i = Fin g \<and> 0 \<le> g))
         \<and> (loss ! i = NaN \<or> (\<exists>l. loss ! i = Fin l \<and> 0 \<le> l)))"
proof -
  from assms obtain gain loss where g: "rsi_gain data window = Inr gain"
    and l: "rsi_loss data window = Inr loss"
    and out: "out = map (\<lambda>x. fsub (Fin 100) (fdiv (Fin 100) (fadd (Fin 1) x))) (map2 fdiv gain loss)"
    by (auto simp: calculate_rsi_def bind_err_def Let_def split: sum.splits)
  let ?gs = "where_s (\<lambda>d. fgt d (Fin 0)) (Fin 0) (diff data)"
  let ?ls = "map fneg (where_s (\<lambda>d. flt d (Fin 0)) (Fin 0) (diff data))"
  from g have w: "\<not> window < 0" and gain: "gain = rolling fmean (nat window) ?gs"
    by (auto simp: rsi_gain_def rolling_mean_def Let_def split: if_splits)
  from l w have loss: "loss = rolling fmean (nat window) ?ls"
    by (auto simp: rsi_loss_def rolling_mean_def Let_def split: if_splits)
  have lg: "length gain = length data" and ll: "length loss = length data"
    by (simp_all add: gain loss length_rolling where_s_def length_diff)
  have lo: "length out = length data" by (simp add: out lg ll)
  have nth: "out ! i = fsub (Fin 100) (fdiv (Fin 100) (fadd (Fin 1) (fdiv (gain ! i) (loss ! i))))"
    if "i < length data" for i
    using that by (simp add: out lg ll)
  have gn: "gain ! i = NaN \<or> (\<exists>g. gain ! i = Fin g \<and> 0 \<le> g)" if "i < length data" for i
    unfolding gain using that
    by (intro rolling_mean_nonneg [OF gains_nonneg]) (simp add: where_s_def length_diff)
  have ln: "loss ! i = NaN \<or> (\<exists>l. loss ! i = Fin l \<and> 0 \<le> l)" if "i < length data" for i
    unfolding loss using that
    by (intro rolling_mean_nonneg [OF losses_nonneg]) (simp add: where_s_def length_diff)
  from g l lg ll lo nth gn ln show ?thesis by blast
qed

text \<open>The map from the two averages to the index.\<close>

lemma rsi_formula_bounds:
  assumes "0 \<le> g" and "0 < l"
  shows "\<exists>r. fsub (Fin 100) (fdiv (Fin 100) (fadd (Fin 1) (fdiv (Fin g) (Fin l)))) = Fin r
             \<and> 0 \<le> r \<and> r \<le> 100"
proof -
  from assms have q: "0 \<le> g / l" by simp
  then have p: "0 < 1 + g / l" by simp
  then have "100 / (1 + g / l) \<le> 100 / 1"
    using q by (intro divide_left_mono) simp_all
  moreover have "0 \<le> 100 / (1 + g / l)" using p by simp
  ultimately have "0 \<le> 100 - 100 / (1 + g / l) \<and> 100 - 100 / (1 + g / l) \<le> 100" by simp
  moreover have "fsub (Fin 100) (fdiv (Fin 100) (fadd (Fin 1) (fdiv (Fin g) (Fin l))))
      = Fin (100 - 100 / (1 + g / l))"
    using assms p by (simp add: fsub_def)
  ultimately show ?thesis by blast
qed

lemma rsi_formula_no_loss:
  "fsub (Fin 100) (fdiv (Fin 100) (fadd (Fin 1) (fdiv g (Fin 0))))
     = (if fgt g (Fin 0) then Fin 100 else NaN)" if "g = NaN \<or> (\<exists>a. g = Fin a \<and> 0 \<le> a)"
  using that by (auto simp: fsub_def fgt_def)


lemma length_ewm_loop: "length (ewm_loop \<alpha> st ow xs) = length xs"
  by (induction \<alpha> st ow xs rule: ewm_loop.induct) (simp_all add: Let_def)

lemma ewm_loop_started:
  assumes "i < length xs"
  shows "ewm_loop \<alpha> (Some m) ow xs ! i \<noteq> NaN"
  using assms
proof (induction xs arbitrary: m ow i)
  case Nil
  then show ?case by simp
next
  case (Cons x xs)
  then show ?case by (cases i) (simp_all add: Let_def)
qed

lemma ewm_loop_nan:
  assumes "i < length xs"
  shows "ewm_loop \<alpha> None ow xs ! i = NaN \<longleftrightarrow> (\<forall>j \<le> i. \<not> is_fin (xs ! j))"
  using assms
proof (induction xs arbitrary: i)
  case Nil
  then show ?case by simp
next
  case (Cons x xs)
  show ?case
  proof (cases "is_fin x")
    case True
    then have "x \<noteq> NaN" by auto
    with True Cons.prems ewm_loop_started [of _ xs \<alpha> "fin_val x" ow] show ?thesis
      by (cases i) auto
  next
    case False
    show ?thesis
    proof (cases i)
      case 0
      with False show ?thesis by simp
    next
      case (Suc k)
      with Cons.prems have k: "k < length xs" by simp
      have "(\<forall>j \<le> Suc k. \<not> is_fin ((x # xs) ! j)) \<longleftrightarrow> (\<forall>j \<le> k. \<not> is_fin (xs ! j))"
      proof
        assume a: "\<forall>j \<le> Suc k. \<not> is_fin ((x # xs) ! j)"
        show "\<forall>j \<le> k. \<not> is_fin (xs ! j)"
        proof (intro allI impI)
          fix j assume "j \<le> k"
          then have "Suc j \<le> Suc k" by simp
          with a have "\<not> is_fin ((x # xs) ! Suc j)" by blast
          then show "\<not> is_fin (xs ! j)" by simp
        qed
      next
        assume a: "\<forall>j \<le> k. \<not> is_fin (xs ! j)"
        show "\<forall>j \<le> Suc k. \<not> is_fin ((x # xs) ! j)"
        proof (intro allI impI)
          fix j assume "j \<le> Suc k"
          with a False show "\<not> is_fin ((x # xs) ! j)" by (cases j) simp_all
        qed
      qed
      with False Suc Cons.IH [OF k] show ?thesis by simp
    qed
  qed
qed


text \<open>
  Claim C4, as the code has it. On a price series shorter than the window, \<open>calculate_sma\<close>,
  \<open>calculate_rsi\<close> and \<open>calculate_ema\<close> return without raising; every position of the SMA
  and of the RSI is "no value"; the EMA has the length of the series and is "no value"
  only before the first price that is a number: it is seeded at the first price.
\<close>

theorem short_series:
  assumes "int (length data) < w"
  shows "calculate_sma data w = Inr (replicate (length data) NaN)
       \<and> calculate_rsi data w = Inr (replicate (length data) NaN)
       \<and> (\<exists>out. calculate_ema data w = Inr out \<and> length out = length data
            \<and> (\<forall>i < length data. out ! i = NaN \<longleftrightarrow> (\<forall>j \<le> i. \<not> is_fin (data ! j))))"
proof -
  from assms have w: "\<not> w < 0" "\<not> w < 1" and n: "length data < nat w" by simp_all
  have short: "rolling fmean (nat w) xs = replicate (length data) NaN" if "length xs = length data" for xs
    using rolling_short [of xs "nat w" fmean] that n by simp
  have sma: "calculate_sma data w = Inr (replicate (length data) NaN)"
    using w short [of data] by (simp add: calculate_sma_def rolling_mean_def)
  have g: "rsi_gain data w = Inr (replicate (length data) NaN)"
    using w by (simp add: rsi_gain_def rolling_mean_def Let_def short where_s_def length_diff)
  have l: "rsi_loss data w = Inr (replicate (length data) NaN)"
    using w by (simp add: rsi_loss_def rolling_mean_def Let_def short where_s_def length_diff)
  have "map2 fdiv (replicate (length data) NaN) (replicate (length data) NaN)
      = replicate (length data) NaN"
    by (simp add: zip_replicate)
  then have rsi: "calculate_rsi data w = Inr (replicate (length data) NaN)"
    by (simp add: calculate_rsi_def g l bind_err_def fsub_def)
  have ema: "calculate_ema data w = Inr (ewm_loop (2 / (real_of_int w + 1)) None 1 data)"
    using w by (simp add: calculate_ema_def ewm_mean_def)
  from sma rsi ema show ?thesis
    by (simp add: length_ewm_loop ewm_loop_nan)
qed

text \<open>On three closes the EMA over 12 periods has a value at every position.\<close>

theorem short_series_counterexample:
  "int (length three_closes) < 12
   \<and> calculate_ema three_closes 12 = Inr [Fin 100, Fin (1280 / 13), Fin (16160 / 169)]
   \<and> Fin 100 \<noteq> NaN"
  by (simp add: three_closes_def calculate_ema_def ewm_mean_def Let_def)

theorem short_series_witness:
  "int (length three_closes) < 20
   \<and> calculate_sma three_closes 20 = Inr [NaN, NaN, NaN]
   \<and> calculate_rsi three_closes 20 = Inr [NaN, NaN, NaN]
   \<and> (\<exists>out. calculate_ema three_closes 20 = Inr out \<and> length out = 3)"
proof -
  have h: "int (length three_closes) < 20" by (simp add: three_closes_def)
  have "replicate (length three_closes) NaN = [NaN, NaN, NaN]"
    by (simp add: three_closes_def numeral_3_eq_3)
  moreover have "length three_closes = 3" by (simp add: three_closes_def)
  ultimately show ?thesis using short_series [OF h] h by auto
qed

text \<open>
  Claim C5, as the code has it. At a position where the rolling average of the losses is
  zero, \<open>calculate_rsi\<close> gives the number 100 when the average of the gains is positive,
  and "no value" when it is not (zero, or itself "no value"); it does not raise. The
  division of a positive average by zero is an infinity, which the formula maps to 100.
\<close>

theorem rsi_without_losses:
  assumes "calculate_rsi data window = Inr out"
    and "rsi_gain data window = Inr gain"
    and "rsi_loss data window = Inr loss"
    and "i < length data"
    and "loss ! i = Fin 0"
  shows "out ! i = (if fgt (gain ! i) (Fin 0) then Fin 100 else NaN)"
proof -
  from calculate_rsi_parts [OF assms(1)] assms(2,3) have
    all: "\<forall>i < length data.
           out ! i = fsub (Fin 100) (fdiv (Fin 100) (fadd (Fin 1) (fdiv (gain ! i) (loss ! i))))
         \<and> (gain ! i = NaN \<or> (\<exists>g. gain ! i = Fin g \<and> 0 \<le> g))"
    by auto
  with assms(4) have "out ! i = fsub (Fin 100) (fdiv (Fin 100) (fadd (Fin 1) (fdiv (gain ! i) (loss ! i))))"
    and "gain ! i = NaN \<or> (\<exists>g. gain ! i = Fin g \<and> 0 \<le> g)"
    by simp_all
  with assms(5) rsi_formula_no_loss [of "gain ! i"] show ?thesis by simp
qed

text \<open>
  On fifteen rising prices the average loss over 14 periods is zero at the last two
  positions, and the index there is the number 100.
\<close>

theorem rsi_without_losses_counterexample:
  "rsi_loss rising 14 =
     Inr [NaN, NaN, NaN, NaN, NaN, NaN, NaN, NaN, NaN, NaN, NaN, NaN, NaN, Fin 0, Fin 0]
   \<and> rsi_gain rising 14 =
     Inr [NaN, NaN, NaN, NaN, NaN, NaN, NaN, NaN, NaN, NaN, NaN, NaN, NaN, Fin (13 / 14), Fin 1]
   \<and> calculate_rsi rising 14 =
     Inr [NaN, NaN, NaN, NaN, NaN, NaN, NaN, NaN, NaN, NaN, NaN, NaN, NaN, Fin 100, Fin 100]
   \<and> Fin 100 \<noteq> NaN"
  by (simp add: rising_def series_defs upt_rec)

theorem rsi_without_losses_witness:
  "calculate_rsi [Fin 1, Fin 2, Fin 3] 2 = Inr [NaN, Fin 100, Fin 100]
   \<and> rsi_gain [Fin 1, Fin 2, Fin 3] 2 = Inr [NaN, Fin (1 / 2), Fin 1]
   \<and> rsi_loss [Fin 1, Fin 2, Fin 3] 2 = Inr [NaN, Fin 0, Fin 0]
   \<and> (2::nat) < length [Fin 1, Fin 2, Fin 3]
   \<and> [NaN, Fin 0, Fin 0] ! 2 = Fin 0
   \<and> [NaN, Fin 100, Fin 100] ! 2 = Fin 100"
proof -
  have h1: "calculate_rsi [Fin 1, Fin 2, Fin 3] 2 = Inr [NaN, Fin 100, Fin 100]"
    and h2: "rsi_gain [Fin 1, Fin 2, Fin 3] 2 = Inr [NaN, Fin (1 / 2), Fin 1]"
    and h3: "rsi_loss [Fin 1, Fin 2, Fin 3] 2 = Inr [NaN, Fin 0, Fin 0]"
    by (simp_all add: series_defs upt_rec)
  have h4: "(2::nat) < length [Fin 1, Fin 2, Fin 3]" by simp
  have h5: "[NaN, Fin 0, Fin 0] ! 2 = Fin 0" by simp
  from rsi_without_losses [OF h1 h2 h3 h4 h5] h1 h2 h3 h4 h5 show ?thesis
    by (simp add: fgt_def)
qed

text \<open>
  Claim C6. Every value of \<open>calculate_rsi\<close> that is not "no value" is a number between
  0 and 100, both included.
\<close>

theorem rsi_bounded:
  assumes "calculate_rsi data window = Inr out"
    and "i < length out"
    and "out ! i \<noteq> NaN"
  shows "\<exists>r. out ! i = Fin r \<and> 0 \<le> r \<and> r \<le> 100"
proof -
  from calculate_rsi_parts [OF assms(1)] obtain gain loss where lo: "length out = length data"
    and all: "\<forall>i < length data.
           out ! i = fsub (Fin 100) (fdiv (Fin 100) (fadd (Fin 1) (fdiv (gain ! i) (loss ! i))))
         \<and> (gain ! i = NaN \<or> (\<exists>g. gain ! i = Fin g \<and> 0 \<le> g))
         \<and> (loss ! i = NaN \<or> (\<exists>l. loss ! i = Fin l \<and> 0 \<le> l))"
    by blast
  from assms(2) lo have i: "i < length data" by simp
  with all have o: "out ! i = fsub (Fin 100) (fdiv (Fin 100) (fadd (Fin 1) (fdiv (gain ! i) (loss ! i))))"
    and gn: "gain ! i = NaN \<or> (\<exists>g. gain ! i = Fin g \<and> 0 \<le> g)"
    and ln: "loss ! i = NaN \<or> (\<exists>l. loss ! i = Fin l \<and> 0 \<le> l)"
    by simp_all
  from ln show ?thesis
  proof
    assume "loss ! i = NaN"
    with o assms(3) show ?thesis by (cases "gain ! i") (simp_all add: fsub_def)
  next
    assume "\<exists>l. loss ! i = Fin l \<and> 0 \<le> l"
    then obtain l where l: "loss ! i = Fin l" "0 \<le> l" by blast
    from gn show ?thesis
    proof
      assume "gain ! i = NaN"
      with o l assms(3) show ?thesis by (simp add: fsub_def)
    next
      assume "\<exists>g. gain ! i = Fin g \<and> 0 \<le> g"
      then obtain g where g: "gain ! i = Fin g" "0 \<le> g" by blast
      show ?thesis
      proof (cases "l = 0")
        case True
        with o l g assms(3) rsi_formula_no_loss [of "Fin g"] show ?thesis
          by (auto split: if_splits)
      next
        case False
        with l have "0 < l" by simp
        from rsi_formula_bounds [OF g(2) this] o g l show ?thesis by simp
      qed
    qed
  qed
qed

theorem rsi_bounded_witness:
  "calculate_rsi [Fin 1, Fin 3, Fin 2] 2 = Inr [NaN, Fin 100, Fin (200 / 3)]
   \<and> (2::nat) < length [NaN, Fin 100, Fin (200 / 3)]
   \<and> [NaN, Fin 100, Fin (200 / 3)] ! 2 \<noteq> NaN
   \<and> (\<exists>r. [NaN, Fin 100, Fin (200 / 3)] ! 2 = Fin r \<and> 0 \<le> r \<and> r \<le> 100)"
proof -
  have h1: "calculate_rsi [Fin 1, Fin 3, Fin 2] 2 = Inr [NaN, Fin 100, Fin (200 / 3)]"
    by (simp add: series_defs upt_rec)
  have h2: "(2::nat) < length [NaN, Fin 100, Fin (200 / 3)]" by simp
  have h3: "[NaN, Fin 100, Fin (200 / 3)] ! 2 \<noteq> NaN" by simp
  from rsi_bounded [OF h1 h2 h3] h1 h2 h3 show ?thesis by blast
qed

section \<open>The short-term signal\<close>

text \<open>On a well-formed, non-empty frame with a \<open>Close\<close> column no step of the short-term engine raises.\<close>

lemma sma20_analysis_returns:
  assumes "df_ok price_data" and "has_column price_data ''Close''"
  shows "\<exists>a'. sma20_analysis sma_20 cp ser price_data a = Inr a'"
proof -
  obtain close where c: "map_of (columns price_data) ''Close'' = Some close"
    using assms(2) by (auto simp: has_column_def)
  with assms(1) have "length close = nrows price_data" by (rule df_ok_column_length)
  then have "2 \<le> nrows price_data \<Longrightarrow> \<exists>p. bind_err (df_col price_data ''Close'') iloc_prev = Inr p"
    using c by (simp add: bind_err_def df_col_def iloc_prev_def)
  then obtain p where
    "(if 2 \<le> nrows price_data then bind_err (df_col price_data ''Close'') iloc_prev else Inr cp) = Inr p"
    by (cases "2 \<le> nrows price_data") auto
  then show ?thesis
    by (cases sma_20) (simp_all add: sma20_analysis_def bind_err_def Let_def)
qed

lemma volume_analysis_returns:
  assumes "df_ok price_data" and "0 < nrows price_data"
  shows "\<exists>a'. volume_analysis volume_avg price_data a = Inr a'"
proof (cases "map_of (columns price_data) ''Volume''")
  case None
  then show ?thesis
    by (cases volume_avg) (simp_all add: volume_analysis_def has_column_def)
next
  case (Some v)
  with assms(1) have "length v = nrows price_data" by (rule df_ok_column_length)
  with assms(2) have "v \<noteq> []" by auto
  with Some have cv: "bind_err (df_col price_data ''Volume'') iloc_last = Inr (last v)"
    by (simp add: bind_err_def df_col_def iloc_last_def)
  show ?thesis
  proof (cases volume_avg)
    case None
    then show ?thesis by (simp add: volume_analysis_def)
  next
    case (Some va)
    then show ?thesis
      using cv by (simp add: volume_analysis_def bind_err_def iloc_last_def Let_def)
  qed
qed

lemma short_term_scores_returns:
  assumes "df_ok price_data" and "has_column price_data ''Close''" and "0 < nrows price_data"
  shows "\<exists>a. short_term_scores fmt ind price_data = Inr a"
proof -
  obtain a2 where "sma20_analysis (l_sma_20 (get_latest ind)) (get_current_price (get_latest ind))
      (get_or_empty (s_sma_20 (get_indicators ind))) price_data
      (rsi_analysis fmt (l_rsi (get_latest ind)) acc0) = Inr a2"
    using sma20_analysis_returns [OF assms(1,2)] by blast
  then have "\<exists>a3. short_term_rules fmt ind price_data = Inr a3"
    by (simp add: short_term_rules_def bind_err_def Let_def)
  then obtain a3 where a3: "short_term_rules fmt ind price_data = Inr a3" ..
  obtain a where "volume_analysis (s_volume_avg (get_indicators ind)) price_data a3 = Inr a"
    using volume_analysis_returns [OF assms(1,3)] by blast
  with a3 show ?thesis by (simp add: short_term_scores_def bind_err_def)
qed

lemma generate_short_term_signal_returns:
  assumes "df_ok price_data" and "has_column price_data ''Close''" and "0 < nrows price_data"
  shows "\<exists>signal reason. generate_short_term_signal fmt ind price_data = Inr (signal, reason)"
  using short_term_scores_returns [OF assms, of fmt ind]
  by (auto simp: generate_short_term_signal_def bind_err_def)

lemma short_term_decision_cases:
  "(short_term_decision b s = ''BUY'' \<longleftrightarrow> b > s \<and> b \<ge> 2)
   \<and> (short_term_decision b s = ''SELL'' \<longleftrightarrow> s > b \<and> s \<ge> 2)
   \<and> (short_term_decision b s \<noteq> ''BUY'' \<and> short_term_decision b s \<noteq> ''SELL''
        \<longrightarrow> short_term_decision b s = ''HOLD'')"
  by (simp add: short_term_decision_def)

text \<open>
  Claim C1. Whenever \<open>generate_short_term_signal\<close> returns, the signal is BUY exactly
  when the snapshot is a successful one and the accumulated \<open>buy_score\<close> exceeds
  \<open>sell_score\<close> and is at least 2, SELL exactly when \<open>sell_score\<close> exceeds \<open>buy_score\<close>
  and is at least 2, and HOLD in every other case; equal scores give HOLD. (By
  \<open>generate_short_term_signal_returns\<close> it returns on every well-formed, non-empty frame
  with a \<open>Close\<close> column.)
\<close>

theorem short_term_signal_decision:
  assumes "generate_short_term_signal fmt ind price_data = Inr (signal, reason)"
  shows "(signal = ''BUY'' \<longleftrightarrow>
            (\<exists>a. success ind \<and> short_term_scores fmt ind price_data = Inr a
                 \<and> buy_score a > sell_score a \<and> buy_score a \<ge> 2))
       \<and> (signal = ''SELL'' \<longleftrightarrow>
            (\<exists>a. success ind \<and> short_term_scores fmt ind price_data = Inr a
                 \<and> sell_score a > buy_score a \<and> sell_score a \<ge> 2))
       \<and> (signal \<noteq> ''BUY'' \<and> signal \<noteq> ''SELL'' \<longrightarrow> signal = ''HOLD'')
       \<and> (\<forall>a. short_term_scores fmt ind price_data = Inr a \<and> buy_score a = sell_score a
              \<longrightarrow> signal = ''HOLD'')"
proof (cases "success ind")
  case False
  with assms have "signal = ''HOLD''"
    by (simp add: generate_short_term_signal_def)
  with False show ?thesis by simp
next
  case True
  with assms obtain a where a: "short_term_scores fmt ind price_data = Inr a"
    and s: "signal = short_term_decision (buy_score a) (sell_score a)"
    by (auto simp: generate_short_term_signal_def bind_err_def split: sum.splits)
  show ?thesis
    using True a s short_term_decision_cases [of "buy_score a" "sell_score a"]
    by (auto simp: short_term_decision_def)
qed

theorem short_term_signal_decision_witness:
  "generate_short_term_signal fmt_whole
     (snapshot (no_latest\<lparr>current_price := Some (Fin 100), l_rsi := Some (Fin 25)\<rparr>) no_series)
     no_frame = Inr (''BUY'', ''RSI = 25.0 (oversold)'')
   \<and> (\<exists>a. short_term_scores fmt_whole
          (snapshot (no_latest\<lparr>current_price := Some (Fin 100), l_rsi := Some (Fin 25)\<rparr>) no_series)
          no_frame = Inr a \<and> buy_score a > sell_score a \<and> buy_score a \<ge> 2)"
proof -
  have h: "generate_short_term_signal fmt_whole
     (snapshot (no_latest\<lparr>current_price := Some (Fin 100), l_rsi := Some (Fin 25)\<rparr>) no_series)
     no_frame = Inr (''BUY'', ''RSI = 25.0 (oversold)'')"
    by (simp add: generate_short_term_signal_def engine_defs example_defs)
  from short_term_signal_decision [OF h] h show ?thesis by blast
qed

section \<open>The long-term signal\<close>

lemma flt_irrefl: "\<not> flt x x"
  by (cases x) simp_all

lemma flt_asym: "flt x y \<Longrightarrow> \<not> flt y x"
  by (cases x; cases y) simp_all

lemma sma200_analysis_adds:
  "buy_score (sma200_analysis fmt s cp a) = buy_score a + buy_score (sma200_analysis fmt s cp acc0)
   \<and> sell_score (sma200_analysis fmt s cp a) = sell_score a + sell_score (sma200_analysis fmt s cp acc0)
   \<and> reasons (sma200_analysis fmt s cp a) = reasons a @ reasons (sma200_analysis fmt s cp acc0)"
  by (simp add: sma200_analysis_def acc0_def add_buy_def add_sell_def split: option.splits)

lemma cross_analysis_adds:
  "buy_score (cross_analysis s50 s200 xs ys a) = buy_score a + buy_score (cross_analysis s50 s200 xs ys acc0)
   \<and> sell_score (cross_analysis s50 s200 xs ys a) = sell_score a + sell_score (cross_analysis s50 s200 xs ys acc0)
   \<and> reasons (cross_analysis s50 s200 xs ys a) = reasons a @ reasons (cross_analysis s50 s200 xs ys acc0)"
  by (simp add: cross_analysis_def acc0_def add_buy_def add_sell_def Let_def split: option.splits)

lemma lt_momentum_analysis_adds:
  "buy_score (lt_momentum_analysis fmt m a) = buy_score a + buy_score (lt_momentum_analysis fmt m acc0)
   \<and> sell_score (lt_momentum_analysis fmt m a) = sell_score a + sell_score (lt_momentum_analysis fmt m acc0)
   \<and> reasons (lt_momentum_analysis fmt m a) = reasons a @ reasons (lt_momentum_analysis fmt m acc0)"
  by (simp add: lt_momentum_analysis_def acc0_def add_buy_def add_sell_def split: option.splits)

lemma analyst_analysis_adds:
  "buy_score (analyst_analysis recs a) = buy_score a + buy_score (analyst_analysis recs acc0)
   \<and> sell_score (analyst_analysis recs a) = sell_score a + sell_score (analyst_analysis recs acc0)
   \<and> reasons (analyst_analysis recs a) = reasons a @ reasons (analyst_analysis recs acc0)"
  by (simp add: analyst_analysis_def acc0_def add_buy_def add_sell_def Let_def split: option.splits)

lemma long_term_decision_cases:
  "(long_term_decision b s = ''BUY'' \<longleftrightarrow> b \<ge> 4)
   \<and> (long_term_decision b s = ''SELL'' \<longleftrightarrow> s \<ge> 4 \<and> b < 4)
   \<and> (long_term_decision b s = ''HOLD (Bullish)'' \<longleftrightarrow> b < 4 \<and> s < 4 \<and> b > s)
   \<and> (long_term_decision b s = ''HOLD (Bearish)'' \<longleftrightarrow> b < 4 \<and> s < 4 \<and> s > b)
   \<and> (long_term_decision b s = ''HOLD'' \<longleftrightarrow> b < 4 \<and> s < 4 \<and> b = s)"
  by (auto simp add: long_term_decision_def)


lemma long_term_scores_split:
  "buy_score (long_term_scores fmt ind recs) =
     buy_score (sma200_analysis fmt (l_sma_200 (get_latest ind)) (get_current_price (get_latest ind)) acc0)
   + buy_score (cross_analysis (l_sma_50 (get_latest ind)) (l_sma_200 (get_latest ind))
       (get_or_empty (s_sma_50 (get_indicators ind))) (get_or_empty (s_sma_200 (get_indicators ind))) acc0)
   + buy_score (lt_momentum_analysis fmt (l_momentum (get_latest ind)) acc0)
   + buy_score (analyst_analysis recs acc0)"
  "sell_score (long_term_scores fmt ind recs) =
     sell_score (sma200_analysis fmt (l_sma_200 (get_latest ind)) (get_current_price (get_latest ind)) acc0)
   + sell_score (cross_analysis (l_sma_50 (get_latest ind)) (l_sma_200 (get_latest ind))
       (get_or_empty (s_sma_50 (get_indicators ind))) (get_or_empty (s_sma_200 (get_indicators ind))) acc0)
   + sell_score (lt_momentum_analysis fmt (l_momentum (get_latest ind)) acc0)
   + sell_score (analyst_analysis recs acc0)"
  "reasons (long_term_scores fmt ind recs) =
     reasons (sma200_analysis fmt (l_sma_200 (get_latest ind)) (get_current_price (get_latest ind)) acc0)
   @ reasons (cross_analysis (l_sma_50 (get_latest ind)) (l_sma_200 (get_latest ind))
       (get_or_empty (s_sma_50 (get_indicators ind))) (get_or_empty (s_sma_200 (get_indicators ind))) acc0)
   @ reasons (lt_momentum_analysis fmt (l_momentum (get_latest ind)) acc0)
   @ reasons (analyst_analysis recs acc0)"
  unfolding long_term_scores_def Let_def
  by (subst analyst_analysis_adds [THEN conjunct1] analyst_analysis_adds [THEN conjunct2, THEN conjunct1]
        analyst_analysis_adds [THEN conjunct2, THEN conjunct2],
      subst lt_momentum_analysis_adds [THEN conjunct1] lt_momentum_analysis_adds [THEN conjunct2, THEN conjunct1]
        lt_momentum_analysis_adds [THEN conjunct2, THEN conjunct2],
      subst cross_analysis_adds [THEN conjunct1] cross_analysis_adds [THEN conjunct2, THEN conjunct1]
        cross_analysis_adds [THEN conjunct2, THEN conjunct2],
      simp)+

lemma join_Cons: "join sep (x # xs) = (if xs = [] then x else x @ sep @ join sep xs)"
  by (cases xs) simp_all

lemma sublist_join:
  assumes "x \<in> set xs"
  shows "sublist x (join sep xs)"
  using assms
proof (induction xs)
  case Nil
  then show ?case by simp
next
  case (Cons y ys)
  show ?case
  proof (cases "x = y")
    case True
    then show ?thesis
      by (simp add: join_Cons sublist_append_rightI)
  next
    case False
    with Cons have "sublist x (join sep ys)" and "ys \<noteq> []" by auto
    then obtain ps ss where "join sep ys = ps @ x @ ss" by (auto simp: sublist_def)
    then have "y @ sep @ join sep ys = (y @ sep @ ps) @ x @ ss" by simp
    then have "sublist x (y @ sep @ join sep ys)" unfolding sublist_def by blast
    with \<open>ys \<noteq> []\<close> show ?thesis
      by (simp add: join_Cons)
  qed
qed

lemma sublist_join_part:
  assumes "sublist w x" and "x \<in> set xs"
  shows "sublist w (join sep xs)"
  using assms sublist_join sublist_order.order_trans by blast


text \<open>
  Claim C2. For every snapshot, \<open>generate_long_term_signal\<close> returns BUY exactly when
  the snapshot is a successful one and \<open>buy_score\<close> is at least 4, SELL exactly when
  \<open>sell_score\<close> is at least 4 and \<open>buy_score\<close> is below 4, HOLD (Bullish) exactly when
  neither reaches 4 and \<open>buy_score\<close> leads, HOLD (Bearish) exactly when neither reaches 4
  and \<open>sell_score\<close> leads, and HOLD otherwise (equal scores below 4, or a failed
  snapshot). Scores 4 and 0 decide BUY, scores 3 and 0 decide HOLD (Bullish).
\<close>

theorem long_term_signal_decision:
  "let a = long_term_scores fmt ind recs;
       signal = fst (generate_long_term_signal fmt ind price_data recs)
   in (signal = ''BUY'' \<longleftrightarrow> success ind \<and> buy_score a \<ge> 4)
    \<and> (signal = ''SELL'' \<longleftrightarrow> success ind \<and> sell_score a \<ge> 4 \<and> buy_score a < 4)
    \<and> (signal = ''HOLD (Bullish)'' \<longleftrightarrow>
          success ind \<and> buy_score a < 4 \<and> sell_score a < 4 \<and> buy_score a > sell_score a)
    \<and> (signal = ''HOLD (Bearish)'' \<longleftrightarrow>
          success ind \<and> buy_score a < 4 \<and> sell_score a < 4 \<and> sell_score a > buy_score a)
    \<and> (signal = ''HOLD'' \<longleftrightarrow>
          \<not> success ind \<or> (buy_score a < 4 \<and> sell_score a < 4 \<and> buy_score a = sell_score a))
    \<and> long_term_decision 4 0 = ''BUY'' \<and> long_term_decision 3 0 = ''HOLD (Bullish)''"
proof (cases "success ind")
  case False
  then show ?thesis
    by (simp add: generate_long_term_signal_def Let_def long_term_decision_def)
next
  case True
  then have "fst (generate_long_term_signal fmt ind price_data recs) =
      long_term_decision (buy_score (long_term_scores fmt ind recs))
        (sell_score (long_term_scores fmt ind recs))"
    by (simp add: generate_long_term_signal_def Let_def)
  moreover have "long_term_decision 4 0 = ''BUY'' \<and> long_term_decision 3 0 = ''HOLD (Bullish)''"
    by (simp add: long_term_decision_def)
  ultimately show ?thesis
    using True long_term_decision_cases [of "buy_score (long_term_scores fmt ind recs)"
        "sell_score (long_term_scores fmt ind recs)"]
    by (simp add: Let_def)
qed

theorem long_term_signal_decision_witness:
  "success ex_uptrend_sma50
   \<and> buy_score (long_term_scores fmt_whole ex_uptrend_sma50 None) = 4
   \<and> sell_score (long_term_scores fmt_whole ex_uptrend_sma50 None) = 0
   \<and> fst (generate_long_term_signal fmt_whole ex_uptrend_sma50 no_frame None) = ''BUY''
   \<and> success ex_uptrend
   \<and> buy_score (long_term_scores fmt_whole ex_uptrend None) = 3
   \<and> sell_score (long_term_scores fmt_whole ex_uptrend None) = 0
   \<and> fst (generate_long_term_signal fmt_whole ex_uptrend no_frame None) = ''HOLD (Bullish)''"
proof -
  have s1: "success ex_uptrend_sma50" and s2: "success ex_uptrend"
    by (simp_all add: success_def example_defs)
  have b1: "buy_score (long_term_scores fmt_whole ex_uptrend_sma50 None) = 4"
    and e1: "sell_score (long_term_scores fmt_whole ex_uptrend_sma50 None) = 0"
    by (simp_all add: engine_defs example_defs)
  have b2: "buy_score (long_term_scores fmt_whole ex_uptrend None) = 3"
    and e2: "sell_score (long_term_scores fmt_whole ex_uptrend None) = 0"
    by (simp_all add: engine_defs example_defs)
  from long_term_signal_decision [of fmt_whole ex_uptrend_sma50 None no_frame]
    long_term_signal_decision [of fmt_whole ex_uptrend None no_frame]
    s1 s2 b1 e1 b2 e2
  show ?thesis by (simp add: Let_def)
qed

text \<open>
  Claim C10. On a successful snapshot with a defined latest SMA200 and a current price
  above 0 the price rule always fires: against the scores of the three other rules, the
  final \<open>buy_score\<close> is 3 higher when the price is above SMA200, and otherwise the final
  \<open>sell_score\<close> is 2 higher; a price equal to SMA200 is the second case.
\<close>

theorem price_vs_sma200_rule:
  assumes "success ind"
    and "l_sma_200 (get_latest ind) = Some s200"
    and "fgt (get_current_price (get_latest ind)) (Fin 0)"
  shows "let l = get_latest ind; s = get_indicators ind; cp = get_current_price l;
             others = analyst_analysis recs (lt_momentum_analysis fmt (l_momentum l)
                        (cross_analysis (l_sma_50 l) (l_sma_200 l) (get_or_empty (s_sma_50 s))
                           (get_or_empty (s_sma_200 s)) acc0));
             a = long_term_scores fmt ind recs
         in (if fgt cp s200
             then buy_score a = buy_score others + 3 \<and> sell_score a = sell_score others
             else buy_score a = buy_score others \<and> sell_score a = sell_score others + 2)
          \<and> (cp = s200 \<longrightarrow> buy_score a = buy_score others \<and> sell_score a = sell_score others + 2)
          \<and> fst (generate_long_term_signal fmt ind price_data recs)
              = long_term_decision (buy_score a) (sell_score a)"
proof -
  let ?l = "get_latest ind" and ?s = "get_indicators ind"
  let ?cp = "get_current_price ?l"
  let ?cross = "cross_analysis (l_sma_50 ?l) (l_sma_200 ?l) (get_or_empty (s_sma_50 ?s))
                           (get_or_empty (s_sma_200 ?s)) acc0"
  let ?others = "analyst_analysis recs (lt_momentum_analysis fmt (l_momentum ?l) ?cross)"
  let ?a = "long_term_scores fmt ind recs"
  let ?r = "sma200_analysis fmt (l_sma_200 ?l) ?cp acc0"
  have ob: "buy_score ?others = buy_score ?cross
      + buy_score (lt_momentum_analysis fmt (l_momentum ?l) acc0) + buy_score (analyst_analysis recs acc0)"
    by (subst analyst_analysis_adds [THEN conjunct1], subst lt_momentum_analysis_adds [THEN conjunct1], simp)
  have os: "sell_score ?others = sell_score ?cross
      + sell_score (lt_momentum_analysis fmt (l_momentum ?l) acc0) + sell_score (analyst_analysis recs acc0)"
    by (subst analyst_analysis_adds [THEN conjunct2, THEN conjunct1],
        subst lt_momentum_analysis_adds [THEN conjunct2, THEN conjunct1], simp)
  have b: "buy_score ?a = buy_score ?r + buy_score ?others"
    and s: "sell_score ?a = sell_score ?r + sell_score ?others"
    by (simp_all add: long_term_scores_split ob os)
  have r: "if fgt ?cp s200 then buy_score ?r = 3 \<and> sell_score ?r = 0
           else buy_score ?r = 0 \<and> sell_score ?r = 2"
    using assms(2,3) by (simp add: sma200_analysis_def add_buy_def add_sell_def acc0_def)
  have eq: "?cp = s200 \<Longrightarrow> \<not> fgt ?cp s200"
    by (simp add: fgt_def flt_irrefl)
  have g: "fst (generate_long_term_signal fmt ind price_data recs)
      = long_term_decision (buy_score ?a) (sell_score ?a)"
    using assms(1) by (simp add: generate_long_term_signal_def Let_def)
  have c1: "if fgt ?cp s200
      then buy_score ?a = buy_score ?others + 3 \<and> sell_score ?a = sell_score ?others
      else buy_score ?a = buy_score ?others \<and> sell_score ?a = sell_score ?others + 2"
  proof (cases "fgt ?cp s200")
    case True
    with r have "buy_score ?r = 3" and "sell_score ?r = 0" by simp_all
    with b s True show ?thesis by simp
  next
    case False
    with r have "buy_score ?r = 0" and "sell_score ?r = 2" by simp_all
    with b s False show ?thesis by simp
  qed
  have c2: "?cp = s200 \<longrightarrow>
      buy_score ?a = buy_score ?others \<and> sell_score ?a = sell_score ?others + 2"
  proof
    assume "?cp = s200"
    then have "\<not> fgt ?cp s200" by (rule eq)
    with c1 show "buy_score ?a = buy_score ?others \<and> sell_score ?a = sell_score ?others + 2"
      by simp
  qed
  from c1 c2 g show ?thesis
    unfolding Let_def by (intro conjI)
qed

theorem price_vs_sma200_rule_witness:
  "success ex_at_sma200
   \<and> l_sma_200 (get_latest ex_at_sma200) = Some (Fin 100)
   \<and> get_current_price (get_latest ex_at_sma200) = Fin 100
   \<and> fgt (get_current_price (get_latest ex_at_sma200)) (Fin 0)
   \<and> buy_score (long_term_scores fmt_whole ex_at_sma200 None) = 0
   \<and> sell_score (long_term_scores fmt_whole ex_at_sma200 None) = 2
   \<and> fst (generate_long_term_signal fmt_whole ex_at_sma200 no_frame None) = ''HOLD (Bearish)''"
proof -
  have h1: "success ex_at_sma200"
    by (simp add: success_def example_defs)
  have h2: "l_sma_200 (get_latest ex_at_sma200) = Some (Fin 100)"
    by (simp add: get_latest_def example_defs)
  have h3: "fgt (get_current_price (get_latest ex_at_sma200)) (Fin 0)"
    by (simp add: get_latest_def get_current_price_def fgt_def example_defs)
  have cp: "get_current_price (get_latest ex_at_sma200) = Fin 100"
    by (simp add: get_latest_def get_current_price_def example_defs)
  have others: "buy_score (analyst_analysis None (lt_momentum_analysis fmt_whole
        (l_momentum (get_latest ex_at_sma200))
        (cross_analysis (l_sma_50 (get_latest ex_at_sma200)) (l_sma_200 (get_latest ex_at_sma200))
          (get_or_empty (s_sma_50 (get_indicators ex_at_sma200)))
          (get_or_empty (s_sma_200 (get_indicators ex_at_sma200))) acc0))) = 0"
      "sell_score (analyst_analysis None (lt_momentum_analysis fmt_whole
        (l_momentum (get_latest ex_at_sma200))
        (cross_analysis (l_sma_50 (get_latest ex_at_sma200)) (l_sma_200 (get_latest ex_at_sma200))
          (get_or_empty (s_sma_50 (get_indicators ex_at_sma200)))
          (get_or_empty (s_sma_200 (get_indicators ex_at_sma200))) acc0))) = 0"
    by (simp_all add: engine_defs example_defs)
  from price_vs_sma200_rule [OF h1 h2 h3, of None fmt_whole no_frame] h1 h2 h3 cp others
  show ?thesis by (simp add: Let_def long_term_decision_def)
qed

text \<open>
  Claim C3. On a successful snapshot whose latest SMA50 and SMA200 are defined, whose
  SMA50 series has at least two entries and whose SMA200 series is not empty, the
  crossover rule compares the entries before the last (for an SMA200 series of a single
  entry, the latest SMA200). Against the scores of the three other rules: previous SMA50
  at or below previous SMA200 with SMA50 now above adds 3 to \<open>buy_score\<close> and the
  returned reason contains "Golden Cross"; the crossing down adds 3 to \<open>sell_score\<close>
  and the reason contains "Death Cross"; with no crossing, SMA50 above SMA200 adds 1 to
  \<open>buy_score\<close> and SMA50 below SMA200 adds 1 to \<open>sell_score\<close>.
\<close>

theorem sma_crossover_rule:
  assumes "success ind"
    and "l_sma_50 (get_latest ind) = Some s50"
    and "l_sma_200 (get_latest ind) = Some s200"
    and "2 \<le> length (get_or_empty (s_sma_50 (get_indicators ind)))"
    and "get_or_empty (s_sma_200 (get_indicators ind)) \<noteq> []"
  shows "let l = get_latest ind;
             sma_50_series = get_or_empty (s_sma_50 (get_indicators ind));
             sma_200_series = get_or_empty (s_sma_200 (get_indicators ind));
             prev_sma50 = sma_50_series ! (length sma_50_series - 2);
             prev_sma200 = (if 2 \<le> length sma_200_series
                            then sma_200_series ! (length sma_200_series - 2) else s200);
             golden = (fle prev_sma50 prev_sma200 \<and> fgt s50 s200);
             death = (fge prev_sma50 prev_sma200 \<and> flt s50 s200);
             others = analyst_analysis recs (lt_momentum_analysis fmt (l_momentum l)
                        (sma200_analysis fmt (l_sma_200 l) (get_current_price l) acc0));
             a = long_term_scores fmt ind recs;
             reason = snd (generate_long_term_signal fmt ind price_data recs)
         in (golden \<longrightarrow> buy_score a = buy_score others + 3 \<and> sell_score a = sell_score others
                \<and> sublist ''Golden Cross'' reason)
          \<and> (death \<longrightarrow> sell_score a = sell_score others + 3 \<and> buy_score a = buy_score others
                \<and> sublist ''Death Cross'' reason)
          \<and> (\<not> golden \<and> \<not> death \<and> fgt s50 s200 \<longrightarrow>
                buy_score a = buy_score others + 1 \<and> sell_score a = sell_score others)
          \<and> (\<not> golden \<and> \<not> death \<and> flt s50 s200 \<longrightarrow>
                sell_score a = sell_score others + 1 \<and> buy_score a = buy_score others)"
proof -
  let ?l = "get_latest ind"
  let ?xs = "get_or_empty (s_sma_50 (get_indicators ind))"
  let ?ys = "get_or_empty (s_sma_200 (get_indicators ind))"
  let ?p50 = "?xs ! (length ?xs - 2)"
  let ?p200 = "if 2 \<le> length ?ys then ?ys ! (length ?ys - 2) else s200"
  let ?golden = "fle ?p50 ?p200 \<and> fgt s50 s200"
  let ?death = "fge ?p50 ?p200 \<and> flt s50 s200"
  let ?r200 = "sma200_analysis fmt (l_sma_200 ?l) (get_current_price ?l) acc0"
  let ?others = "analyst_analysis recs (lt_momentum_analysis fmt (l_momentum ?l) ?r200)"
  let ?c = "cross_analysis (l_sma_50 ?l) (l_sma_200 ?l) ?xs ?ys acc0"
  let ?a = "long_term_scores fmt ind recs"
  let ?reason = "snd (generate_long_term_signal fmt ind price_data recs)"
  have ob: "buy_score ?others = buy_score ?r200
      + buy_score (lt_momentum_analysis fmt (l_momentum ?l) acc0) + buy_score (analyst_analysis recs acc0)"
    by (subst analyst_analysis_adds [THEN conjunct1], subst lt_momentum_analysis_adds [THEN conjunct1], simp)
  have os: "sell_score ?others = sell_score ?r200
      + sell_score (lt_momentum_analysis fmt (l_momentum ?l) acc0) + sell_score (analyst_analysis recs acc0)"
    by (subst analyst_analysis_adds [THEN conjunct2, THEN conjunct1],
        subst lt_momentum_analysis_adds [THEN conjunct2, THEN conjunct1], simp)
  have b: "buy_score ?a = buy_score ?others + buy_score ?c"
    and s: "sell_score ?a = sell_score ?others + sell_score ?c"
    by (simp_all add: long_term_scores_split ob os)
  define golden where "golden = (fle ?p50 ?p200 \<and> fgt s50 s200)"
  define death where "death = (fge ?p50 ?p200 \<and> flt s50 s200)"
  have xs: "?xs \<noteq> []" using assms(4) by auto
  have c: "?c = (if golden
        then add_buy 3 ''Golden Cross detected (SMA50 > SMA200) - strong bullish signal'' acc0
      else if death
        then add_sell 3 ''Death Cross detected (SMA50 < SMA200) - strong bearish signal'' acc0
      else if fgt s50 s200 then add_buy 1 ''SMA50 above SMA200 - positive trend'' acc0
      else if flt s50 s200 then add_sell 1 ''SMA50 below SMA200 - negative trend'' acc0
      else acc0)"
    unfolding golden_def death_def
    using assms(2,3,4,5) xs by (simp add: cross_analysis_def Let_def)
  have nd: "golden \<Longrightarrow> \<not> death"
    unfolding golden_def death_def using flt_asym [of s200 s50] by (auto simp: fgt_def)
  have in_reasons: "\<And>x. x \<in> set (reasons ?c) \<Longrightarrow> sublist x ?reason"
  proof -
    fix x assume "x \<in> set (reasons ?c)"
    then have x: "x \<in> set (reasons ?a)" by (simp add: long_term_scores_split(3))
    then have "reasons ?a \<noteq> []" by auto
    then have "?reason = join '', '' (reasons ?a)"
      using assms(1) by (simp add: generate_long_term_signal_def Let_def)
    with x show "sublist x ?reason" by (simp add: sublist_join)
  qed
  have g: "golden \<longrightarrow> buy_score ?a = buy_score ?others + 3 \<and> sell_score ?a = sell_score ?others
                \<and> sublist ''Golden Cross'' ?reason"
  proof
    assume gc: golden
    with c have c': "?c = add_buy 3 ''Golden Cross detected (SMA50 > SMA200) - strong bullish signal'' acc0"
      by simp
    then have "sublist ''Golden Cross detected (SMA50 > SMA200) - strong bullish signal'' ?reason"
      by (intro in_reasons) (simp add: add_buy_def acc0_def)
    moreover have "sublist ''Golden Cross'' ''Golden Cross detected (SMA50 > SMA200) - strong bullish signal''"
      by (intro prefix_imp_sublist) simp
    ultimately have "sublist ''Golden Cross'' ?reason"
      by (rule sublist_order.order_trans [rotated])
    with b s c' show "buy_score ?a = buy_score ?others + 3 \<and> sell_score ?a = sell_score ?others
                \<and> sublist ''Golden Cross'' ?reason"
      by (simp add: add_buy_def acc0_def)
  qed
  have d: "death \<longrightarrow> sell_score ?a = sell_score ?others + 3 \<and> buy_score ?a = buy_score ?others
                \<and> sublist ''Death Cross'' ?reason"
  proof
    assume dc: death
    with nd have "\<not> golden" by blast
    with c dc have c': "?c = add_sell 3 ''Death Cross detected (SMA50 < SMA200) - strong bearish signal'' acc0"
      by simp
    then have "sublist ''Death Cross detected (SMA50 < SMA200) - strong bearish signal'' ?reason"
      by (intro in_reasons) (simp add: add_sell_def acc0_def)
    moreover have "sublist ''Death Cross'' ''Death Cross detected (SMA50 < SMA200) - strong bearish signal''"
      by (intro prefix_imp_sublist) simp
    ultimately have "sublist ''Death Cross'' ?reason"
      by (rule sublist_order.order_trans [rotated])
    with b s c' show "sell_score ?a = sell_score ?others + 3 \<and> buy_score ?a = buy_score ?others
                \<and> sublist ''Death Cross'' ?reason"
      by (simp add: add_sell_def acc0_def)
  qed
  have up: "\<not> golden \<and> \<not> death \<and> fgt s50 s200 \<longrightarrow>
                buy_score ?a = buy_score ?others + 1 \<and> sell_score ?a = sell_score ?others"
  proof
    assume h: "\<not> golden \<and> \<not> death \<and> fgt s50 s200"
    with c have "?c = add_buy 1 ''SMA50 above SMA200 - positive trend'' acc0" by simp
    with b s show "buy_score ?a = buy_score ?others + 1 \<and> sell_score ?a = sell_score ?others"
      by (simp add: add_buy_def acc0_def)
  qed
  have down: "\<not> golden \<and> \<not> death \<and> flt s50 s200 \<longrightarrow>
                sell_score ?a = sell_score ?others + 1 \<and> buy_score ?a = buy_score ?others"
  proof
    assume h: "\<not> golden \<and> \<not> death \<and> flt s50 s200"
    then have "\<not> fgt s50 s200" using flt_asym [of s50 s200] by (simp add: fgt_def)
    with c h have "?c = add_sell 1 ''SMA50 below SMA200 - negative trend'' acc0" by simp
    with b s show "sell_score ?a = sell_score ?others + 1 \<and> buy_score ?a = buy_score ?others"
      by (simp add: add_sell_def acc0_def)
  qed
  from g d up down show ?thesis
    unfolding Let_def golden_def death_def by (intro conjI)
qed

theorem sma_crossover_rule_witness:
  "success ex_golden
   \<and> l_sma_50 (get_latest ex_golden) = Some (Fin 120)
   \<and> l_sma_200 (get_latest ex_golden) = Some (Fin 100)
   \<and> get_or_empty (s_sma_50 (get_indicators ex_golden)) = [Fin 90, Fin 120]
   \<and> get_or_empty (s_sma_200 (get_indicators ex_golden)) = [Fin 100, Fin 100]
   \<and> fle (Fin 90) (Fin 100) \<and> fgt (Fin 120) (Fin 100)
   \<and> buy_score (long_term_scores fmt_whole ex_golden None) = 6
   \<and> sublist ''Golden Cross'' (snd (generate_long_term_signal fmt_whole ex_golden no_frame None))"
proof -
  have h1: "success ex_golden"
    by (simp add: success_def example_defs)
  have h2: "l_sma_50 (get_latest ex_golden) = Some (Fin 120)"
    and h3: "l_sma_200 (get_latest ex_golden) = Some (Fin 100)"
    by (simp_all add: get_latest_def example_defs)
  have xs: "get_or_empty (s_sma_50 (get_indicators ex_golden)) = [Fin 90, Fin 120]"
    and ys: "get_or_empty (s_sma_200 (get_indicators ex_golden)) = [Fin 100, Fin 100]"
    by (simp_all add: get_indicators_def get_or_empty_def example_defs)
  have h4: "2 \<le> length (get_or_empty (s_sma_50 (get_indicators ex_golden)))"
    and h5: "get_or_empty (s_sma_200 (get_indicators ex_golden)) \<noteq> []"
    by (simp_all add: xs ys)
  have cmp: "fle (Fin 90) (Fin 100) \<and> fgt (Fin 120) (Fin 100)"
    by (simp add: fgt_def)
  have others: "buy_score (analyst_analysis None (lt_momentum_analysis fmt_whole
        (l_momentum (get_latest ex_golden))
        (sma200_analysis fmt_whole (l_sma_200 (get_latest ex_golden))
          (get_current_price (get_latest ex_golden)) acc0))) = 3"
    by (simp add: engine_defs example_defs)
  from sma_crossover_rule [OF h1 h2 h3 h4 h5, of None fmt_whole no_frame] h1 h2 h3 xs ys cmp others
  show ?thesis by (simp add: Let_def)
qed

section \<open>The volume step\<close>

lemma volume_analysis_effect:
  assumes "volume_analysis volume_avg price_data a3 = Inr a"
  shows "buy_score a = buy_score a3 \<and> sell_score a = sell_score a3
     \<and> (reasons a = reasons a3
        \<or> (\<exists>va vol. volume_avg = Some va \<and> va \<noteq> []
              \<and> map_of (columns price_data) ''Volume'' = Some vol \<and> vol \<noteq> []
              \<and> fgt (last va) (Fin 0)
              \<and> fgt (fdiv (last vol) (last va)) (Fin (15 / 10))
              \<and> buy_score a3 \<noteq> sell_score a3
              \<and> reasons a = reasons a3 @
                   [if buy_score a3 > sell_score a3 then ''High volume confirms bullish move''
                    else ''High volume confirms bearish move'']))"
proof (cases volume_avg)
  case None
  with assms show ?thesis by (simp add: volume_analysis_def)
next
  case (Some va)
  show ?thesis
  proof (cases "va \<noteq> [] \<and> has_column price_data ''Volume''")
    case False
    with assms Some show ?thesis by (auto simp: volume_analysis_def)
  next
    case True
    then obtain vol where vol: "map_of (columns price_data) ''Volume'' = Some vol"
      by (auto simp: has_column_def)
    show ?thesis
    proof (cases "vol = []")
      case True
      with assms Some vol \<open>va \<noteq> [] \<and> has_column price_data ''Volume''\<close> show ?thesis
        by (simp add: volume_analysis_def bind_err_def df_col_def iloc_last_def)
    next
      case False
      with assms Some vol True show ?thesis
        by (auto simp: volume_analysis_def bind_err_def df_col_def iloc_last_def Let_def add_note_def
            split: if_splits)
    qed
  qed
qed


text \<open>
  Claim C7. Whenever the short-term evaluation reaches its decision, the scores it
  decides on are those left by the RSI, SMA20 and momentum rules: the volume step changes
  neither. The reasons are unchanged as well, unless the volume average series and the
  \<open>Volume\<close> column are present, the latest average volume is positive, the current
  volume divided by it exceeds 1.5 and one score strictly leads the other; then exactly one
  note is appended, bullish when \<open>buy_score\<close> leads and bearish when \<open>sell_score\<close> leads.
\<close>

theorem volume_step_keeps_scores:
  assumes "short_term_scores fmt ind price_data = Inr a"
  shows "\<exists>a3. short_term_rules fmt ind price_data = Inr a3
     \<and> buy_score a = buy_score a3 \<and> sell_score a = sell_score a3
     \<and> (reasons a = reasons a3
        \<or> (\<exists>va vol. s_volume_avg (get_indicators ind) = Some va \<and> va \<noteq> []
              \<and> map_of (columns price_data) ''Volume'' = Some vol \<and> vol \<noteq> []
              \<and> fgt (last va) (Fin 0)
              \<and> fgt (fdiv (last vol) (last va)) (Fin (15 / 10))
              \<and> buy_score a3 \<noteq> sell_score a3
              \<and> reasons a = reasons a3 @
                   [if buy_score a3 > sell_score a3 then ''High volume confirms bullish move''
                    else ''High volume confirms bearish move'']))"
proof -
  from assms obtain a3 where r: "short_term_rules fmt ind price_data = Inr a3"
    and v: "volume_analysis (s_volume_avg (get_indicators ind)) price_data a3 = Inr a"
    by (auto simp: short_term_scores_def bind_err_def split: sum.splits)
  from volume_analysis_effect [OF v] r show ?thesis by blast
qed

theorem volume_step_keeps_scores_witness:
  "short_term_scores fmt_whole ex_oversold_volume ex_frame =
     Inr \<lparr>buy_score = 2, sell_score = 0,
          reasons = [''RSI = 25.0 (oversold)'', ''High volume confirms bullish move'']\<rparr>
   \<and> (\<exists>a3. short_term_rules fmt_whole ex_oversold_volume ex_frame = Inr a3
          \<and> buy_score a3 = 2 \<and> sell_score a3 = 0)"
proof -
  have h: "short_term_scores fmt_whole ex_oversold_volume ex_frame =
     Inr \<lparr>buy_score = 2, sell_score = 0,
          reasons = [''RSI = 25.0 (oversold)'', ''High volume confirms bullish move'']\<rparr>"
    by (simp add: engine_defs example_defs has_column_def df_col_def iloc_last_def)
  from volume_step_keeps_scores [OF h] h show ?thesis by auto
qed


section \<open>Failed computations\<close>

text \<open>
  Claim C8. On an empty frame or a frame without a \<open>Close\<close> column
  \<open>calculate_all_indicators\<close> returns the dictionary that carries the error message,
  and does not raise; that dictionary has no truthy \<open>success\<close> entry. For every snapshot
  without a truthy \<open>success\<close> entry both signal functions return HOLD with the reason
  "Insufficient data for analysis", whatever the other arguments are: no rule is evaluated.
\<close>

theorem failure_yields_hold:
  assumes "df_empty price_data \<or> \<not> has_column price_data ''Close''"
    and "\<not> success ind"
  shows "calculate_all_indicators price_data =
           Inr \<lparr>d_error = Some ''Invalid price data'', d_indicators = None,
                d_latest = None, d_success = None\<rparr>
       \<and> \<not> success \<lparr>d_error = Some ''Invalid price data'', d_indicators = None,
                d_latest = None, d_success = None\<rparr>
       \<and> generate_short_term_signal fmt ind pd = Inr (''HOLD'', ''Insufficient data for analysis'')
       \<and> generate_long_term_signal fmt ind pd recs = (''HOLD'', ''Insufficient data for analysis'')"
  using assms
  by (simp add: calculate_all_indicators_def generate_short_term_signal_def
      generate_long_term_signal_def success_def)

theorem failure_yields_hold_witness:
  "\<not> has_column \<lparr>nrows = 3, columns = [(''Open'', [Fin 100, Fin 90, Fin 80])]\<rparr> ''Close''
   \<and> \<not> success failed
   \<and> calculate_all_indicators \<lparr>nrows = 3, columns = [(''Open'', [Fin 100, Fin 90, Fin 80])]\<rparr>
       = Inr failed
   \<and> generate_short_term_signal fmt_whole failed
       \<lparr>nrows = 3, columns = [(''Open'', [Fin 100, Fin 90, Fin 80])]\<rparr>
       = Inr (''HOLD'', ''Insufficient data for analysis'')
   \<and> generate_long_term_signal fmt_whole failed
       \<lparr>nrows = 3, columns = [(''Open'', [Fin 100, Fin 90, Fin 80])]\<rparr> None
       = (''HOLD'', ''Insufficient data for analysis'')"
proof -
  have h1: "\<not> has_column \<lparr>nrows = 3, columns = [(''Open'', [Fin 100, Fin 90, Fin 80])]\<rparr> ''Close''"
    by (simp add: has_column_def)
  have h2: "\<not> success failed"
    by (simp add: success_def failed_def)
  from failure_yields_hold [OF disjI2 [OF h1] h2] h1 h2 show ?thesis
    by (simp add: failed_def)
qed

section \<open>The stock search\<close>

lemma distinct_tickers: "distinct (map fst POPULAR_STOCKS)"
  unfolding POPULAR_STOCKS_def by simp

subsection \<open>The loops as filters\<close>

lemma prefix_loop_filter:
  "prefix_loop q xs results =
     results @ map (mk_match ''ticker_prefix'') (filter (\<lambda>e. prefix q (fst e) \<and> fst e \<noteq> q) xs)"
  by (induction q xs results rule: prefix_loop.induct) (simp_all add: mk_match_def)

lemma name_loop_filter:
  assumes "distinct (map fst xs)"
  shows "name_loop q xs results =
     results @ map (mk_match ''name_match'')
       (filter (\<lambda>e. sublist q (lower (fst (snd e))) \<and> fst e \<notin> ticker ` set results) xs)"
  using assms
proof (induction q xs results rule: name_loop.induct)
  case (1 q results)
  then show ?case by simp
next
  case (2 q t n s rest results)
  let ?new = "if sublist q (lower n) \<and> t \<notin> set (map ticker results)
        then results @ [\<lparr>ticker = t, name = n, sector = s, match_type = ''name_match''\<rparr>]
        else results"
  from "2.prems" have d: "distinct (map fst rest)" and t: "t \<notin> fst ` set rest" by simp_all
  have same: "filter (\<lambda>e. sublist q (lower (fst (snd e))) \<and> fst e \<notin> ticker ` set ?new) rest
      = filter (\<lambda>e. sublist q (lower (fst (snd e))) \<and> fst e \<notin> ticker ` set results) rest"
    using t by (intro filter_cong) auto
  have "name_loop q ((t, n, s) # rest) results = name_loop q rest ?new" by simp
  also have "\<dots> = ?new @ map (mk_match ''name_match'')
       (filter (\<lambda>e. sublist q (lower (fst (snd e))) \<and> fst e \<notin> ticker ` set ?new) rest)"
    using d by (rule "2.IH")
  also have "\<dots> = results @ map (mk_match ''name_match'')
       (filter (\<lambda>e. sublist q (lower (fst (snd e))) \<and> fst e \<notin> ticker ` set results) ((t, n, s) # rest))"
    unfolding same by (simp add: mk_match_def)
  finally show ?case .
qed

lemma exact_lookup:
  "(case map_of POPULAR_STOCKS q of
      None \<Rightarrow> []
    | Some (n, s) \<Rightarrow> [\<lparr>ticker = q, name = n, sector = s, match_type = ''ticker_exact''\<rparr>])
   = exact_matches q"
proof -
  have "distinct (map fst xs) \<Longrightarrow>
    (case map_of xs q of
      None \<Rightarrow> []
    | Some (n, s) \<Rightarrow> [\<lparr>ticker = q, name = n, sector = s, match_type = ''ticker_exact''\<rparr>])
    = map (mk_match ''ticker_exact'') (filter (\<lambda>e. fst e = q) xs)" for xs :: "(string \<times> string \<times> string) list"
  proof (induction xs)
    case Nil
    then show ?case by simp
  next
    case (Cons e xs)
    obtain t n s where e: "e = (t, n, s)" by (cases e)
    show ?case
    proof (cases "t = q")
      case True
      with Cons.prems e have "q \<notin> fst ` set xs" by simp
      then have "filter (\<lambda>e. fst e = q) xs = []" by (auto simp: filter_empty_conv)
      with True e show ?thesis by (simp add: mk_match_def)
    next
      case False
      with Cons e show ?thesis by simp
    qed
  qed
  from this [OF distinct_tickers] show ?thesis by (simp add: exact_matches_def)
qed

lemma listed_tickers:
  assumes "e \<in> set POPULAR_STOCKS"
  shows "fst e \<in> ticker ` set (exact_matches q @ prefix_matches q) \<longleftrightarrow> prefix q (fst e)"
proof
  assume "fst e \<in> ticker ` set (exact_matches q @ prefix_matches q)"
  then show "prefix q (fst e)"
    by (auto simp: exact_matches_def prefix_matches_def mk_match_def)
next
  assume p: "prefix q (fst e)"
  show "fst e \<in> ticker ` set (exact_matches q @ prefix_matches q)"
  proof (cases "fst e = q")
    case True
    with assms have "mk_match ''ticker_exact'' e \<in> set (exact_matches q)"
      by (simp add: exact_matches_def)
    then have "ticker (mk_match ''ticker_exact'' e) \<in> ticker ` set (exact_matches q @ prefix_matches q)"
      by simp
    then show ?thesis by (simp add: mk_match_def)
  next
    case False
    with assms p have "mk_match ''ticker_prefix'' e \<in> set (prefix_matches q)"
      by (simp add: prefix_matches_def)
    then have "ticker (mk_match ''ticker_prefix'' e) \<in> ticker ` set (exact_matches q @ prefix_matches q)"
      by simp
    then show ?thesis by (simp add: mk_match_def)
  qed
qed

lemma collected_results:
  "name_loop q_lower POPULAR_STOCKS
     (prefix_loop q_upper POPULAR_STOCKS
       (case map_of POPULAR_STOCKS q_upper of
          None \<Rightarrow> []
        | Some (n, s) \<Rightarrow> [\<lparr>ticker = q_upper, name = n, sector = s, match_type = ''ticker_exact''\<rparr>]))
   = exact_matches q_upper @ prefix_matches q_upper @ name_matches q_upper q_lower"
proof -
  let ?listed = "exact_matches q_upper @ prefix_matches q_upper"
  have "filter (\<lambda>e. sublist q_lower (lower (fst (snd e))) \<and> fst e \<notin> ticker ` set ?listed) POPULAR_STOCKS
      = filter (\<lambda>e. sublist q_lower (lower (fst (snd e))) \<and> \<not> prefix q_upper (fst e)) POPULAR_STOCKS"
    by (intro filter_cong refl) (simp only: listed_tickers)
  then show ?thesis
    unfolding exact_lookup prefix_loop_filter
    by (simp add: name_loop_filter [OF distinct_tickers] prefix_matches_def [symmetric] name_matches_def)
qed

subsection \<open>Sorting by priority, then ticker\<close>

lemma insort_key_append_above:
  assumes "\<forall>b \<in> set bs. f x < f b"
  shows "insort_key f x (as @ bs) = insort_key f x as @ bs"
proof (induction as)
  case Nil
  from assms have "\<forall>b \<in> set bs. f x \<le> f b" by auto
  then show ?case by (simp add: insort_is_Cons)
next
  case (Cons a as)
  then show ?case by simp
qed

lemma sort_key_append_above:
  assumes "\<forall>x \<in> set xs. \<forall>y \<in> set ys. f x < f y"
  shows "sort_key f (xs @ ys) = sort_key f xs @ sort_key f ys"
  using assms
proof (induction xs)
  case Nil
  then show ?case by simp
next
  case (Cons x xs)
  then have "\<forall>b \<in> set (sort_key f ys). f x < f b" by simp
  with Cons show ?case by (simp add: insort_key_append_above)
qed

lemma insort_key_same_group:
  assumes "g a = c" and "\<forall>y \<in> set ys. g y = c"
  shows "insort_key (\<lambda>x. (g x, h x)) a ys = insort_key h a ys"
  using assms by (induction ys) simp_all

lemma sort_key_same_group:
  assumes "\<forall>x \<in> set xs. g x = c"
  shows "sort_key (\<lambda>x. (g x, h x)) xs = sort_key h xs"
  using assms
proof (induction xs)
  case Nil
  then show ?case by simp
next
  case (Cons x xs)
  then have "insort_key (\<lambda>x. (g x, h x)) x (sort_key h xs) = insort_key h x (sort_key h xs)"
    by (intro insort_key_same_group [where c = c]) simp_all
  with Cons show ?case by simp
qed

lemma priorities:
  "\<forall>x \<in> set (exact_matches q). priority (match_type x) = 0"
  "\<forall>x \<in> set (prefix_matches q). priority (match_type x) = 1"
  "\<forall>x \<in> set (name_matches q q'). priority (match_type x) = 2"
  by (auto simp: exact_matches_def prefix_matches_def name_matches_def mk_match_def priority_def)

lemma exact_matches_short: "length (exact_matches q) \<le> 1"
proof -
  have "distinct (map fst xs) \<Longrightarrow> length (filter (\<lambda>e. fst e = q) xs) \<le> 1"
    for xs :: "(string \<times> string \<times> string) list"
  proof (induction xs)
    case Nil
    then show ?case by simp
  next
    case (Cons e xs)
    show ?case
    proof (cases "fst e = q")
      case True
      with Cons.prems have "q \<notin> fst ` set xs" by auto
      then have "filter (\<lambda>e. fst e = q) xs = []" by (auto simp: filter_empty_conv)
      with True show ?thesis by simp
    next
      case False
      with Cons show ?thesis by simp
    qed
  qed
  from this [OF distinct_tickers] show ?thesis by (simp add: exact_matches_def)
qed

lemma sort_key_short: "length xs \<le> 1 \<Longrightarrow> sort_key f xs = xs"
  by (cases xs) (simp_all add: Suc_le_eq)

lemma sorted_results:
  "sort_key (\<lambda>x. (priority (match_type x), ticker x))
     (exact_matches q @ prefix_matches q @ name_matches q q')
   = exact_matches q @ sort_key ticker (prefix_matches q) @ sort_key ticker (name_matches q q')"
proof -
  let ?k = "\<lambda>x. (priority (match_type x), ticker x)"
  have 1: "\<forall>x \<in> set (exact_matches q). \<forall>y \<in> set (prefix_matches q @ name_matches q q'). ?k x < ?k y"
    using priorities by auto
  have 2: "\<forall>x \<in> set (prefix_matches q). \<forall>y \<in> set (name_matches q q'). ?k x < ?k y"
    using priorities by auto
  have "sort_key ?k (exact_matches q @ prefix_matches q @ name_matches q q')
      = sort_key ?k (exact_matches q) @ sort_key ?k (prefix_matches q) @ sort_key ?k (name_matches q q')"
    by (simp add: sort_key_append_above [OF 1] sort_key_append_above [OF 2])
  also have "sort_key ?k (exact_matches q) = exact_matches q"
    by (rule sort_key_short [OF exact_matches_short])
  also have "sort_key ?k (prefix_matches q) = sort_key ticker (prefix_matches q)"
    by (rule sort_key_same_group [OF priorities(2)])
  also have "sort_key ?k (name_matches q q') = sort_key ticker (name_matches q q')"
    by (rule sort_key_same_group [OF priorities(3)])
  finally show ?thesis .
qed

lemma search_stocks_spec:
  assumes "query \<noteq> []" and "0 \<le> limit"
  shows "search_stocks query limit = search_spec query (nat limit)"
  using assms
  by (simp add: search_stocks_def search_spec_def Let_def collected_results sorted_results slice_to_def)

lemma apple_groups:
  "strip (upper ''AAPL'') = ''AAPL''"
  "exact_matches ''AAPL'' = [\<lparr>ticker = ''AAPL'', name = ''Apple Inc.'', sector = ''Technology'',
      match_type = ''ticker_exact''\<rparr>]"
  "strip (upper ''Apple'') = ''APPLE''"
  "strip (lower ''Apple'') = ''apple''"
  "exact_matches ''APPLE'' @ sort_key ticker (prefix_matches ''APPLE'')
     @ sort_key ticker (name_matches ''APPLE'' ''apple'')
   = [\<lparr>ticker = ''AAPL'', name = ''Apple Inc.'', sector = ''Technology'',
      match_type = ''name_match''\<rparr>]"
  by code_simp+


text \<open>
  Claim C9, as the code has it. For every non-empty query and every limit that is not
  negative, \<open>search_stocks\<close> returns at most \<open>limit\<close> entries, and they are the first
  entries of the ranking: the exact ticker match if there is one, then the tickers that
  start with the query, then the companies whose name contains the query and that are not
  listed yet, the last two groups in ascending order of ticker. With a limit of at least 1
  the query "AAPL" returns the AAPL entry first, as \<open>ticker_exact\<close>, and the query
  "Apple" returns the AAPL entry alone, as \<open>name_match\<close>.
\<close>

theorem search_stocks_ranked:
  assumes "query \<noteq> []" and "0 \<le> limit"
  shows "search_stocks query limit = search_spec query (nat limit)
       \<and> int (length (search_stocks query limit)) \<le> limit
       \<and> (1 \<le> limit \<longrightarrow>
            search_stocks ''AAPL'' limit \<noteq> []
          \<and> hd (search_stocks ''AAPL'' limit) =
              \<lparr>ticker = ''AAPL'', name = ''Apple Inc.'', sector = ''Technology'',
               match_type = ''ticker_exact''\<rparr>
          \<and> search_stocks ''Apple'' limit =
              [\<lparr>ticker = ''AAPL'', name = ''Apple Inc.'', sector = ''Technology'',
                match_type = ''name_match''\<rparr>])"
proof -
  have spec: "search_stocks query limit = search_spec query (nat limit)"
    using assms by (rule search_stocks_spec)
  have "length (search_spec query (nat limit)) \<le> nat limit"
    by (simp add: search_spec_def Let_def)
  with spec assms(2) have len: "int (length (search_stocks query limit)) \<le> limit"
    by simp
  have ex: "1 \<le> limit \<longrightarrow>
            search_stocks ''AAPL'' limit \<noteq> []
          \<and> hd (search_stocks ''AAPL'' limit) =
              \<lparr>ticker = ''AAPL'', name = ''Apple Inc.'', sector = ''Technology'',
               match_type = ''ticker_exact''\<rparr>
          \<and> search_stocks ''Apple'' limit =
              [\<lparr>ticker = ''AAPL'', name = ''Apple Inc.'', sector = ''Technology'',
                match_type = ''name_match''\<rparr>]"
  proof
    assume l: "1 \<le> limit"
    then obtain n where n: "nat limit = Suc n" by (cases "nat limit") simp_all
    let ?exact = "\<lparr>ticker = ''AAPL'', name = ''Apple Inc.'', sector = ''Technology'',
               match_type = ''ticker_exact''\<rparr>"
    let ?named = "\<lparr>ticker = ''AAPL'', name = ''Apple Inc.'', sector = ''Technology'',
               match_type = ''name_match''\<rparr>"
    from l have a: "search_stocks ''AAPL'' limit = search_spec ''AAPL'' (Suc n)"
      and b: "search_stocks ''Apple'' limit = search_spec ''Apple'' (Suc n)"
      by (simp_all add: search_stocks_spec n)
    have "search_spec ''AAPL'' (Suc n) = take (Suc n) (?exact #
        sort_key ticker (prefix_matches ''AAPL'')
        @ sort_key ticker (name_matches ''AAPL'' (strip (lower ''AAPL''))))"
      by (simp only: search_spec_def Let_def apple_groups append_Cons append_Nil)
    with a have a': "search_stocks ''AAPL'' limit = ?exact # take n
        (sort_key ticker (prefix_matches ''AAPL'')
        @ sort_key ticker (name_matches ''AAPL'' (strip (lower ''AAPL''))))"
      by (simp only: take_Suc_Cons)
    have "search_spec ''Apple'' (Suc n) = take (Suc n) [?named]"
      by (simp only: search_spec_def Let_def apple_groups)
    with b have b': "search_stocks ''Apple'' limit = [?named]"
      by simp
    from a' b' show "search_stocks ''AAPL'' limit \<noteq> []
          \<and> hd (search_stocks ''AAPL'' limit) = ?exact
          \<and> search_stocks ''Apple'' limit = [?named]"
      by simp
  qed
  from spec len ex show ?thesis by (intro conjI)
qed

text \<open>With the limit \<open>-1\<close> the slice drops the last result: the query "AAPL" returns nothing.\<close>

theorem search_stocks_ranked_counterexample:
  "search_stocks ''AAPL'' (- 1) = []
   \<and> \<not> int (length (search_stocks ''AAPL'' (- 1))) \<le> - 1"
  by code_simp

theorem search_stocks_ranked_witness:
  "''Apple'' \<noteq> [] \<and> (0::int) \<le> 20 \<and> (1::int) \<le> 20
   \<and> search_stocks ''Apple'' 20 = search_spec ''Apple'' (nat 20)
   \<and> int (length (search_stocks ''Apple'' 20)) \<le> 20
   \<and> search_stocks ''Apple'' 20 =
       [\<lparr>ticker = ''AAPL'', name = ''Apple Inc.'', sector = ''Technology'',
         match_type = ''name_match''\<rparr>]
   \<and> hd (search_stocks ''AAPL'' 20) =
       \<lparr>ticker = ''AAPL'', name = ''Apple Inc.'', sector = ''Technology'',
        match_type = ''ticker_exact''\<rparr>"
proof -
  have h1: "''Apple'' \<noteq> []" by simp
  have h2: "(0::int) \<le> 20" by simp
  have h3: "(1::int) \<le> 20" by simp
  have n: "nat 20 = 20" by simp
  from search_stocks_ranked [OF h1 h2] h3 have
    "search_stocks ''Apple'' 20 = search_spec ''Apple'' (nat 20)"
    "int (length (search_stocks ''Apple'' 20)) \<le> 20"
    "search_stocks ''Apple'' 20 =
       [\<lparr>ticker = ''AAPL'', name = ''Apple Inc.'', sector = ''Technology'',
         match_type = ''name_match''\<rparr>]"
    "hd (search_stocks ''AAPL'' 20) =
       \<lparr>ticker = ''AAPL'', name = ''Apple Inc.'', sector = ''Technology'',
        match_type = ''ticker_exact''\<rparr>"
    by blast+
  with h1 h2 h3 show ?thesis by (intro conjI)
qed

end
